theory Spec2Isabelle
  imports Main "HOL-Library.Word"
begin

unbundle bit_operations_syntax

section \<open>Nested VMX (xen/arch/x86/hvm/vmx/vvmx.c): data model\<close>

text \<open>
  The embedding follows vvmx.c on an x86-64 build: \<open>unsigned long\<close> and \<open>u64\<close> are
  64-bit words, \<open>u32\<close> and \<open>unsigned int\<close> are 32-bit words, \<open>int\<close> is a 32-bit
  word read with \<open>sint\<close> where its sign matters.
\<close>

type_synonym u64 = "64 word"
type_synonym u32 = "32 word"
type_synonym u8 = "8 word"

text \<open>
  A guest page seen as \<open>u64 content[]\<close>: slot number to slot value. A 4 KiB page has
  the slots 0 to 511; \<open>vvmcs_offset_in_page\<close> below shows that the codec stays there.
\<close>

type_synonym page = "nat \<Rightarrow> u64"

text \<open>
  Modelled from the spec: \<open>union vmcs_encoding\<close> and \<open>enum vvmcs_encoding_width\<close>
  are declared in asm/hvm/vmx/vvmx.h, which is not under src/. The spec names the four
  fields (index, type, width, access type), numbers the widths 16-bit, 64-bit, 32-bit,
  natural, and says that field encodings follow the 16-bit format of the Intel VMX
  specification. In that format bit 0 is the access type, bits 1 to 9 the index, bits 10
  and 11 the type, bit 12 is reserved and bits 13 and 14 are the width. (The positions the
  spec's data model lists, index 0 to 4, type 5 and 6, width 7 and 8, are those of the
  slot offset that \<open>vvmcs_offset\<close> builds from the fields.) The theorems on the
  codec hold for every encoding word and do not depend on the positions.
\<close>

record vmcs_encoding =
  access_type :: bool
  index :: u32
  type :: u32
  width :: u32

definition enc_of_word :: "u32 \<Rightarrow> vmcs_encoding" where
  "enc_of_word w =
     \<lparr> access_type = bit w 0,
       index = drop_bit 1 w AND 0x1ff,
       type = drop_bit 10 w AND 3,
       width = drop_bit 13 w AND 3 \<rparr>"

definition VVMCS_WIDTH_16 :: u32 where "VVMCS_WIDTH_16 = 0"
definition VVMCS_WIDTH_64 :: u32 where "VVMCS_WIDTH_64 = 1"
definition VVMCS_WIDTH_32 :: u32 where "VVMCS_WIDTH_32 = 2"
definition VVMCS_WIDTH_NATURAL :: u32 where "VVMCS_WIDTH_NATURAL = 3"

section \<open>VVMCS codec\<close>

text \<open>
  \<open>vvmcs_offset\<close>: \<open>offset = (index & 0x1f) | type << 5 | width << 7\<close>, and 0x3f when
  that is 0. The C result is an \<open>int\<close>; it is kept as the 32-bit word and read with
  \<open>sint\<close> by the callers.
\<close>

definition vvmcs_offset :: "u32 \<Rightarrow> u32 \<Rightarrow> u32 \<Rightarrow> u32" where
  "vvmcs_offset wd ty idx =
     (let offset = (idx AND 0x1f) OR push_bit 5 ty OR push_bit 7 wd
      in if offset = 0 then 0x3f else offset)"

text \<open>The slot \<open>content[offset]\<close> that the fields of an encoding select.\<close>

definition slot_of :: "vmcs_encoding \<Rightarrow> nat" where
  "slot_of enc = nat (sint (vvmcs_offset (width enc) (type enc) (index enc)))"

text \<open>
  \<open>__get_vvmcs\<close> on the page behind a valid \<open>vvmcs\<close> pointer: the body of the
  function on the fields of \<open>enc\<close>, and the function itself, which first assigns the
  encoding word to the union (\<open>enc.word = vmcs_encoding\<close>).
\<close>

definition get_vvmcs_enc :: "page \<Rightarrow> vmcs_encoding \<Rightarrow> u64" where
  "get_vvmcs_enc content enc =
     (let res = content (slot_of enc)
      in if width enc = VVMCS_WIDTH_16 then res AND 0xffff
         else if width enc = VVMCS_WIDTH_64 then
           (if access_type enc then drop_bit 32 res else res)
         else if width enc = VVMCS_WIDTH_32 then res AND 0xffffffff
         else res)"

definition get_vvmcs_page :: "page \<Rightarrow> u32 \<Rightarrow> u64" where
  "get_vvmcs_page content vmcs_encoding = get_vvmcs_enc content (enc_of_word vmcs_encoding)"

text \<open>\<open>__set_vvmcs\<close> on the page behind a valid \<open>vvmcs\<close> pointer, in the same two steps.\<close>

definition set_vvmcs_enc :: "page \<Rightarrow> vmcs_encoding \<Rightarrow> u64 \<Rightarrow> page" where
  "set_vvmcs_enc content enc val =
     (let offset = slot_of enc;
          res = content offset;
          res' =
            (if width enc = VVMCS_WIDTH_16 then val AND 0xffff
             else if width enc = VVMCS_WIDTH_64 then
               (if access_type enc then (res AND 0xffffffff) OR push_bit 32 val
                else val)
             else if width enc = VVMCS_WIDTH_32 then val AND 0xffffffff
             else val)
      in content(offset := res'))"

definition set_vvmcs_page :: "page \<Rightarrow> u32 \<Rightarrow> u64 \<Rightarrow> page" where
  "set_vvmcs_page content vmcs_encoding val =
     set_vvmcs_enc content (enc_of_word vmcs_encoding) val"

definition enc_slot :: "u32 \<Rightarrow> nat" where
  "enc_slot e = slot_of (enc_of_word e)"

text \<open>
  The value the spec's round trip expects: \<open>val\<close> masked to the width of the encoding,
  where the high half of a 64-bit field (access type 1) holds 32 bits.
\<close>

definition mask_for_enc :: "vmcs_encoding \<Rightarrow> u64 \<Rightarrow> u64" where
  "mask_for_enc enc v =
     (if width enc = VVMCS_WIDTH_16 then v AND 0xffff
      else if width enc = VVMCS_WIDTH_32 then v AND 0xffffffff
      else if width enc = VVMCS_WIDTH_64 \<and> access_type enc then v AND 0xffffffff
      else v)"

definition mask_for :: "u32 \<Rightarrow> u64 \<Rightarrow> u64" where
  "mask_for e v = mask_for_enc (enc_of_word e) v"

section \<open>Guest registers and the VM-exit instruction information\<close>

text \<open>
  Modelled from the spec: \<open>enum vmx_regs_enc\<close> (vvmx.h, not under src/) names the
  sixteen general registers that a 4-bit register field of the instruction information
  can select.
\<close>

datatype vmx_regs_enc =
    VMX_REG_RAX | VMX_REG_RCX | VMX_REG_RDX | VMX_REG_RBX
  | VMX_REG_RSP | VMX_REG_RBP | VMX_REG_RSI | VMX_REG_RDI
  | VMX_REG_R8 | VMX_REG_R9 | VMX_REG_R10 | VMX_REG_R11
  | VMX_REG_R12 | VMX_REG_R13 | VMX_REG_R14 | VMX_REG_R15

text \<open>
  Modelled from the spec: \<open>struct cpu_user_regs\<close> is declared in a header that is not
  under src/; the record has the fields that \<open>reg_read\<close>, \<open>reg_write\<close> and
  \<open>vmreturn\<close> name.
\<close>

record cpu_user_regs =
  eax :: u64
  ecx :: u64
  edx :: u64
  ebx :: u64
  ebp :: u64
  esi :: u64
  edi :: u64
  esp :: u64
  r8 :: u64
  r9 :: u64
  r10 :: u64
  r11 :: u64
  r12 :: u64
  r13 :: u64
  r14 :: u64
  r15 :: u64
  eflags :: u64

fun reg_read :: "cpu_user_regs \<Rightarrow> vmx_regs_enc \<Rightarrow> u64" where
  "reg_read regs VMX_REG_RAX = eax regs"
| "reg_read regs VMX_REG_RCX = ecx regs"
| "reg_read regs VMX_REG_RDX = edx regs"
| "reg_read regs VMX_REG_RBX = ebx regs"
| "reg_read regs VMX_REG_RBP = ebp regs"
| "reg_read regs VMX_REG_RSI = esi regs"
| "reg_read regs VMX_REG_RDI = edi regs"
| "reg_read regs VMX_REG_RSP = esp regs"
| "reg_read regs VMX_REG_R8 = r8 regs"
| "reg_read regs VMX_REG_R9 = r9 regs"
| "reg_read regs VMX_REG_R10 = r10 regs"
| "reg_read regs VMX_REG_R11 = r11 regs"
| "reg_read regs VMX_REG_R12 = r12 regs"
| "reg_read regs VMX_REG_R13 = r13 regs"
| "reg_read regs VMX_REG_R14 = r14 regs"
| "reg_read regs VMX_REG_R15 = r15 regs"

fun reg_write :: "cpu_user_regs \<Rightarrow> vmx_regs_enc \<Rightarrow> u64 \<Rightarrow> cpu_user_regs" where
  "reg_write regs VMX_REG_RAX v = regs\<lparr>eax := v\<rparr>"
| "reg_write regs VMX_REG_RCX v = regs\<lparr>ecx := v\<rparr>"
| "reg_write regs VMX_REG_RDX v = regs\<lparr>edx := v\<rparr>"
| "reg_write regs VMX_REG_RBX v = regs\<lparr>ebx := v\<rparr>"
| "reg_write regs VMX_REG_RBP v = regs\<lparr>ebp := v\<rparr>"
| "reg_write regs VMX_REG_RSI v = regs\<lparr>esi := v\<rparr>"
| "reg_write regs VMX_REG_RDI v = regs\<lparr>edi := v\<rparr>"
| "reg_write regs VMX_REG_RSP v = regs\<lparr>esp := v\<rparr>"
| "reg_write regs VMX_REG_R8 v = regs\<lparr>r8 := v\<rparr>"
| "reg_write regs VMX_REG_R9 v = regs\<lparr>r9 := v\<rparr>"
| "reg_write regs VMX_REG_R10 v = regs\<lparr>r10 := v\<rparr>"
| "reg_write regs VMX_REG_R11 v = regs\<lparr>r11 := v\<rparr>"
| "reg_write regs VMX_REG_R12 v = regs\<lparr>r12 := v\<rparr>"
| "reg_write regs VMX_REG_R13 v = regs\<lparr>r13 := v\<rparr>"
| "reg_write regs VMX_REG_R14 v = regs\<lparr>r14 := v\<rparr>"
| "reg_write regs VMX_REG_R15 v = regs\<lparr>r15 := v\<rparr>"

text \<open>
  Modelled from the spec: \<open>union vmx_inst_info\<close> (vvmx.h, not under src/). The code
  assigns the word read from VMX_INSTRUCTION_INFO to the union and uses only its fields;
  the model takes the fields, with the widths of the hardware format, as what the
  hardware VMCS holds.
\<close>

record vmx_inst_info =
  scaling :: "2 word"
  reg1 :: vmx_regs_enc
  addr_size :: "3 word"
  memreg :: bool
  segment :: "3 word"
  index_reg :: vmx_regs_enc
  index_reg_invalid :: bool
  base_reg :: vmx_regs_enc
  base_reg_invalid :: bool
  reg2 :: vmx_regs_enc

text \<open>
  Modelled from the spec: \<open>enum x86_segment\<close> and \<open>struct segment_register\<close> are
  declared in headers that are not under src/; these are the segments that
  \<open>sreg_to_index[]\<close> names and the fields that vvmx.c reads (\<open>sel\<close>, \<open>attr.fields.l\<close>,
  \<open>limit\<close>, \<open>base\<close>).
\<close>

datatype x86_segment =
  x86_seg_cs | x86_seg_ss | x86_seg_ds | x86_seg_es | x86_seg_fs | x86_seg_gs

record segment_register =
  sel :: "16 word"
  attr_l :: bool
  limit :: u32
  base :: u64

text \<open>
  Modelled from the spec: the VMX_SREG numbers (vvmx.h) are those of the hardware format,
  ES, CS, SS, DS, FS, GS from 0 to 5.
\<close>

definition VMX_SREG_ES :: "3 word" where "VMX_SREG_ES = 0"
definition VMX_SREG_CS :: "3 word" where "VMX_SREG_CS = 1"
definition VMX_SREG_SS :: "3 word" where "VMX_SREG_SS = 2"
definition VMX_SREG_DS :: "3 word" where "VMX_SREG_DS = 3"
definition VMX_SREG_FS :: "3 word" where "VMX_SREG_FS = 4"
definition VMX_SREG_GS :: "3 word" where "VMX_SREG_GS = 5"

text \<open>The table \<open>sreg_to_index[]\<close>; the decoder never indexes it above 5.\<close>

definition sreg_to_index :: "3 word \<Rightarrow> x86_segment" where
  "sreg_to_index s =
     (if s = VMX_SREG_ES then x86_seg_es
      else if s = VMX_SREG_CS then x86_seg_cs
      else if s = VMX_SREG_SS then x86_seg_ss
      else if s = VMX_SREG_DS then x86_seg_ds
      else if s = VMX_SREG_FS then x86_seg_fs
      else x86_seg_gs)"

section \<open>The vCPU and its surroundings\<close>

text \<open>
  A pointer returned by \<open>hvm_map_guest_frame_rw/ro\<close>: NULL, or the host address of a
  mapping. Whether the mapping is still there is a matter of the store \<open>host_maps\<close>.
\<close>

datatype ptr = NULL | Ptr nat

text \<open>
  What stops the hypervisor itself, as opposed to a fault injected into the guest: an
  access through a NULL pointer or through a pointer whose mapping has been released, a copy
  past the end of a local variable, a read of a union member that was never written.
\<close>

datatype host_fault =
    NULL_DEREF
  | UNMAPPED_ACCESS
  | BUFFER_OVERRUN
  | INDETERMINATE_READ

text \<open>The two \<open>X86EMUL\<close> codes that vvmx.c returns, and \<open>enum vmx_ops_result\<close>.\<close>

datatype x86emul = X86EMUL_OKAY | X86EMUL_EXCEPTION

datatype vmx_ops_result = VMSUCCEED | VMFAIL_VALID | VMFAIL_INVALID

text \<open>
  Modelled from the spec: \<open>struct vcpu\<close>, \<open>struct nestedvmx\<close> and
  \<open>struct nestedvcpu\<close> are declared in headers that are not under src/, and the host
  surfaces the handlers call live in files that are not under src/. The record is the state
  a handler sees through \<open>current\<close>: the fields of the three structs that vvmx.c reads
  and writes, under its names, and what the surfaces need:
  \<^item> \<open>guest_phys\<close>, \<open>host_maps\<close>, \<open>next_map\<close>: guest frames and the live mappings made
    by \<open>hvm_map_guest_frame_rw/ro\<close>;
  \<^item> \<open>guest_virt_read\<close>, \<open>guest_virt_writable\<close>, \<open>guest_virt_written\<close>: what
    \<open>hvm_copy_from_guest_virt\<close> returns (None when the copy fails), whether
    \<open>hvm_copy_to_guest_virt\<close> succeeds, and what it has written (address, value,
    length);
  \<^item> \<open>injected\<close>: the calls of \<open>hvm_inject_exception\<close> (trap, error code, cr2);
  \<^item> \<open>hw_inst_info\<close>, \<open>hw_vmcs\<close>: the hardware VMCS under \<open>__vmread\<close> and
    \<open>__vmwrite\<close>; \<open>nv_n1vmcx\<close> says whether that pointer has been set to the host
    VMCS, \<open>nv_n2vmcx\<close> is the shadow VMCS page (None when there is none);
  \<^item> \<open>hvm_io_bitmap\<close>, \<open>nestedhvm_vcpu_iomap_get\<close>: the machine addresses
    (\<open>virt_to_maddr\<close>) of the host's default bitmap and of the four shadow bitmaps.
\<close>

record vcpu =
  guest_cr0 :: u64
  guest_cr4 :: u64
  hvm_long_mode_enabled :: bool
  seg_regs :: "x86_segment \<Rightarrow> segment_register"
  vmxon_region_pa :: u64
  iobitmap :: "nat \<Rightarrow> ptr"
  nv_vvmcx :: ptr
  nv_vvmcxaddr :: u64
  nv_vmentry_pending :: bool
  nv_n1vmcx :: bool
  nv_n2vmcx :: "(u64 \<Rightarrow> u64) option"
  hvm_vmx_launched :: bool
  hw_inst_info :: vmx_inst_info
  hw_vmcs :: "u64 \<Rightarrow> u64"
  guest_phys :: "u64 \<Rightarrow> page option"
  host_maps :: "nat \<Rightarrow> u64 option"
  next_map :: nat
  guest_virt_read :: "u64 \<Rightarrow> u64 \<Rightarrow> u64 option"
  guest_virt_writable :: "u64 \<Rightarrow> u64 \<Rightarrow> bool"
  guest_virt_written :: "(u64 \<times> u64 \<times> u64) list"
  injected :: "(nat \<times> u64 \<times> u64) list"
  hvm_io_bitmap :: u64
  nestedhvm_vcpu_iomap_get :: "bool \<Rightarrow> bool \<Rightarrow> u64"

text \<open>
  Modelled from the spec: constants of headers that are not under src/. The sentinel
  INVALID of nv_vvmcxaddr is all ones; the rest are the architecture's numbers (EFLAGS,
  CR0 and CR4 bits, the vectors of #UD and #GP, the page size, VMCS field encodings and
  the bits of the CPU-based execution controls), and the field that vvmx.c keeps the
  launch state of a VVMCS in.
\<close>

definition VMCX_EADDR :: u64 where "VMCX_EADDR = NOT 0"
definition PAGE_SHIFT :: nat where "PAGE_SHIFT = 12"
definition PAGE_SIZE :: u64 where "PAGE_SIZE = 4096"

definition X86_EFLAGS_CF :: u64 where "X86_EFLAGS_CF = 0x1"
definition X86_EFLAGS_PF :: u64 where "X86_EFLAGS_PF = 0x4"
definition X86_EFLAGS_AF :: u64 where "X86_EFLAGS_AF = 0x10"
definition X86_EFLAGS_ZF :: u64 where "X86_EFLAGS_ZF = 0x40"
definition X86_EFLAGS_SF :: u64 where "X86_EFLAGS_SF = 0x80"
definition X86_EFLAGS_OF :: u64 where "X86_EFLAGS_OF = 0x800"
definition X86_EFLAGS_VM :: u64 where "X86_EFLAGS_VM = 0x20000"
definition X86_CR0_PE :: u64 where "X86_CR0_PE = 0x1"
definition X86_CR4_VMXE :: u64 where "X86_CR4_VMXE = 0x2000"
definition TRAP_invalid_op :: nat where "TRAP_invalid_op = 6"
definition TRAP_gp_fault :: nat where "TRAP_gp_fault = 13"

definition IO_BITMAP_A :: u64 where "IO_BITMAP_A = 0x2000"
definition IO_BITMAP_A_HIGH :: u64 where "IO_BITMAP_A_HIGH = 0x2001"
definition IO_BITMAP_B :: u64 where "IO_BITMAP_B = 0x2002"
definition IO_BITMAP_B_HIGH :: u64 where "IO_BITMAP_B_HIGH = 0x2003"
definition CPU_BASED_VM_EXEC_CONTROL :: u64 where "CPU_BASED_VM_EXEC_CONTROL = 0x4002"
definition EXCEPTION_BITMAP :: u64 where "EXCEPTION_BITMAP = 0x4004"
definition SECONDARY_VM_EXEC_CONTROL :: u64 where "SECONDARY_VM_EXEC_CONTROL = 0x401e"
definition EXIT_QUALIFICATION :: u64 where "EXIT_QUALIFICATION = 0x6400"
definition NVMX_LAUNCH_STATE :: u64 where "NVMX_LAUNCH_STATE = 0x6c20"

definition CPU_BASED_TPR_SHADOW :: u32 where
  "CPU_BASED_TPR_SHADOW = 0x00200000"
definition CPU_BASED_UNCOND_IO_EXITING :: u32 where
  "CPU_BASED_UNCOND_IO_EXITING = 0x01000000"
definition CPU_BASED_ACTIVATE_IO_BITMAP :: u32 where
  "CPU_BASED_ACTIVATE_IO_BITMAP = 0x02000000"
definition CPU_BASED_ACTIVATE_MSR_BITMAP :: u32 where
  "CPU_BASED_ACTIVATE_MSR_BITMAP = 0x10000000"
definition CPU_BASED_ACTIVATE_SECONDARY_CONTROLS :: u32 where
  "CPU_BASED_ACTIVATE_SECONDARY_CONTROLS = 0x80000000"

subsection \<open>Host surfaces\<close>

text \<open>
  Modelled from the spec: \<open>hvm_inject_exception\<close> and \<open>hvm_get_segment_register\<close>
  (not under src/). Injecting records the exception; the segment registers are guest state.
\<close>

definition hvm_inject_exception :: "vcpu \<Rightarrow> nat \<Rightarrow> u64 \<Rightarrow> u64 \<Rightarrow> vcpu" where
  "hvm_inject_exception v trap errcode cr2 =
     v\<lparr>injected := injected v @ [(trap, errcode, cr2)]\<rparr>"

definition hvm_get_segment_register :: "vcpu \<Rightarrow> x86_segment \<Rightarrow> segment_register" where
  "hvm_get_segment_register v seg = seg_regs v seg"

text \<open>
  Modelled from the spec: \<open>hvm_map_guest_frame_rw\<close>, \<open>hvm_map_guest_frame_ro\<close> and
  \<open>hvm_unmap_guest_frame\<close> (not under src/). Mapping a guest frame gives NULL when the
  guest has no page there, and otherwise a fresh host address that leads to the frame until
  it is unmapped; the model does not tell read-only from read/write mappings.
\<close>

definition hvm_map_guest_frame :: "vcpu \<Rightarrow> u64 \<Rightarrow> ptr \<times> vcpu" where
  "hvm_map_guest_frame v gfn =
     (case guest_phys v gfn of
        None \<Rightarrow> (NULL, v)
      | Some pg \<Rightarrow>
          (Ptr (next_map v),
           v\<lparr>host_maps := (host_maps v)(next_map v := Some gfn),
             next_map := Suc (next_map v)\<rparr>))"

definition hvm_unmap_guest_frame :: "vcpu \<Rightarrow> ptr \<Rightarrow> vcpu" where
  "hvm_unmap_guest_frame v p =
     (case p of
        NULL \<Rightarrow> v
      | Ptr a \<Rightarrow> v\<lparr>host_maps := (host_maps v)(a := None)\<rparr>)"

text \<open>The guest frame behind a pointer, when the host can read or write through it.\<close>

definition frame_of :: "vcpu \<Rightarrow> ptr \<Rightarrow> host_fault + u64" where
  "frame_of v p =
     (case p of
        NULL \<Rightarrow> Inl NULL_DEREF
      | Ptr a \<Rightarrow>
          (case host_maps v a of
             None \<Rightarrow> Inl UNMAPPED_ACCESS
           | Some gfn \<Rightarrow>
               (case guest_phys v gfn of
                  None \<Rightarrow> Inl UNMAPPED_ACCESS
                | Some pg \<Rightarrow> Inr gfn)))"

definition deref :: "vcpu \<Rightarrow> ptr \<Rightarrow> host_fault + page" where
  "deref v p =
     (case frame_of v p of
        Inl f \<Rightarrow> Inl f
      | Inr gfn \<Rightarrow>
          (case guest_phys v gfn of
             None \<Rightarrow> Inl UNMAPPED_ACCESS
           | Some pg \<Rightarrow> Inr pg))"

text \<open>
  \<open>__get_vvmcs\<close> and \<open>__set_vvmcs\<close> through a pointer: they index \<open>content[offset]\<close>
  without looking at the pointer, so a NULL or stale pointer is a host fault. The
  \<open>u32 vmcs_encoding\<close> parameter truncates what the caller passes.
\<close>

definition get_vvmcs :: "vcpu \<Rightarrow> ptr \<Rightarrow> u64 \<Rightarrow> host_fault + u64" where
  "get_vvmcs v vvmcs vmcs_encoding =
     (case deref v vvmcs of
        Inl f \<Rightarrow> Inl f
      | Inr content \<Rightarrow> Inr (get_vvmcs_page content (ucast vmcs_encoding)))"

definition set_vvmcs :: "vcpu \<Rightarrow> ptr \<Rightarrow> u64 \<Rightarrow> u64 \<Rightarrow> host_fault + vcpu" where
  "set_vvmcs v vvmcs vmcs_encoding val =
     (case frame_of v vvmcs of
        Inl f \<Rightarrow> Inl f
      | Inr gfn \<Rightarrow>
          (case guest_phys v gfn of
             None \<Rightarrow> Inl UNMAPPED_ACCESS
           | Some content \<Rightarrow>
               Inr (v\<lparr>guest_phys := (guest_phys v)
                  (gfn := Some (set_vvmcs_page content (ucast vmcs_encoding) val))\<rparr>)))"

text \<open>
  Modelled from the spec: \<open>__vmwrite\<close> and \<open>__vmread\<close> (not under src/) on the fields
  of the hardware VMCS.
\<close>

definition vmwrite :: "vcpu \<Rightarrow> u64 \<Rightarrow> u64 \<Rightarrow> vcpu" where
  "vmwrite v field val = v\<lparr>hw_vmcs := (hw_vmcs v)(field := val)\<rparr>"

definition vmread :: "vcpu \<Rightarrow> u64 \<Rightarrow> u64" where
  "vmread v field = hw_vmcs v field"

section \<open>vCPU initialisation\<close>

text \<open>
  \<open>nvmx_vcpu_initialise\<close>; the argument is what \<open>alloc_xenheap_page\<close> returned. The
  result is the return value (0, or \<open>-ENOMEM\<close> as \<open>False\<close>) and the vCPU. The
  pending-interrupt fields \<open>intr\<close> are not part of the model.
\<close>

definition nvmx_vcpu_initialise :: "vcpu \<Rightarrow> (u64 \<Rightarrow> u64) option \<Rightarrow> bool \<times> vcpu" where
  "nvmx_vcpu_initialise v alloc =
     (let v1 = v\<lparr>nv_n2vmcx := alloc\<rparr>
      in case alloc of
           None \<Rightarrow> (False, v1)
         | Some shadow \<Rightarrow>
             (True, v1\<lparr>vmxon_region_pa := 0, nv_vvmcx := NULL,
                     nv_vvmcxaddr := VMCX_EADDR,
                     iobitmap := (iobitmap v)(0 := NULL, 1 := NULL)\<rparr>))"

section \<open>Privilege check\<close>

definition vmx_inst_check_privilege :: "cpu_user_regs \<Rightarrow> vcpu \<Rightarrow> bool \<Rightarrow> x86emul \<times> vcpu" where
  "vmx_inst_check_privilege regs v vmxop_check =
     (let cs = hvm_get_segment_register v x86_seg_cs;
          invalid_op = (X86EMUL_EXCEPTION, hvm_inject_exception v TRAP_invalid_op 0 0);
          gp_fault = (X86EMUL_EXCEPTION, hvm_inject_exception v TRAP_gp_fault 0 0)
      in if (if vmxop_check
             then guest_cr0 v AND X86_CR0_PE = 0 \<or> guest_cr4 v AND X86_CR4_VMXE = 0
             else vmxon_region_pa v = 0)
         then invalid_op
         else if eflags regs AND X86_EFLAGS_VM \<noteq> 0 \<or>
                 (hvm_long_mode_enabled v \<and> \<not> attr_l cs)
         then invalid_op
         else if sel cs AND 3 > 0 then gp_fault
         else (X86EMUL_OKAY, v))"

section \<open>Instruction decoder\<close>

text \<open>
  \<open>struct vmx_inst_decoded\<close>: the type tag with the members of the union that the
  decoder fills in for it, and \<open>reg2\<close>.
\<close>

datatype vmx_inst_decoded =
    VMX_INST_MEMREG_TYPE_MEMORY u64 u32 vmx_regs_enc
  | VMX_INST_MEMREG_TYPE_REG vmx_regs_enc vmx_regs_enc

datatype decode_result =
    DECODE_FAULT host_fault
  | DECODE_EXCEPTION vcpu
  | DECODE_OKAY vmx_inst_decoded "u64 option" vcpu

text \<open>
  \<open>hvm_copy_from_guest_virt\<close> into an \<open>unsigned long\<close> that held \<open>dst\<close>: the low
  \<open>size\<close> bytes are replaced.
\<close>

definition copy_into :: "u64 \<Rightarrow> u64 \<Rightarrow> u64 \<Rightarrow> u64" where
  "copy_into dst x sz =
     (if sz \<ge> 8 then x
      else (dst AND NOT (mask (8 * unat sz))) OR (x AND mask (8 * unat sz)))"

text \<open>
  \<open>decode_vmx_inst\<close>. \<open>poperandS\<close> is None for a NULL pointer and otherwise what the
  caller's variable holds; the result carries what it holds afterwards. The variable is
  an \<open>unsigned long\<close>: a successful copy of more than 8 bytes (address-size field above
  2) writes past it, which the model counts as a fault of the host.
\<close>

definition decode_vmx_inst ::
  "cpu_user_regs \<Rightarrow> vcpu \<Rightarrow> u64 option \<Rightarrow> bool \<Rightarrow> decode_result" where
  "decode_vmx_inst regs v poperandS vmxon_check =
     (let (rc, v1) = vmx_inst_check_privilege regs v vmxon_check
      in if rc \<noteq> X86EMUL_OKAY then DECODE_EXCEPTION v1
         else
           let info = hw_inst_info v1
           in if memreg info then
                DECODE_OKAY (VMX_INST_MEMREG_TYPE_REG (reg1 info) (reg2 info))
                  (case poperandS of
                     None \<Rightarrow> None
                   | Some dst \<Rightarrow> Some (reg_read regs (reg1 info)))
                  v1
              else if segment info > 5 then
                DECODE_EXCEPTION (hvm_inject_exception v1 TRAP_gp_fault 0 0)
              else
                let seg = hvm_get_segment_register v1 (sreg_to_index (segment info));
                    seg_base = base seg;
                    base_v = (if base_reg_invalid info then 0
                              else reg_read regs (base_reg info));
                    index_v = (if index_reg_invalid info then 0
                               else reg_read regs (index_reg info));
                    scale = (push_bit (unat (scaling info)) 1 :: u64);
                    disp = vmread v1 EXIT_QUALIFICATION;
                    sz = (push_bit (unat (addr_size info) + 1) 1 :: u64);
                    offset = base_v + index_v * scale + disp
                in if (offset > ucast (limit seg) \<or> offset + sz > ucast (limit seg)) \<and>
                      (\<not> hvm_long_mode_enabled v1 \<or> segment info = VMX_SREG_GS)
                   then DECODE_EXCEPTION (hvm_inject_exception v1 TRAP_gp_fault 0 0)
                   else
                     (case poperandS of
                        None \<Rightarrow>
                          DECODE_OKAY
                            (VMX_INST_MEMREG_TYPE_MEMORY (seg_base + offset) (ucast sz)
                               (reg2 info))
                            None v1
                      | Some dst \<Rightarrow>
                          (case guest_virt_read v1 (seg_base + offset) sz of
                             None \<Rightarrow> DECODE_EXCEPTION v1
                           | Some x \<Rightarrow>
                               if sz > 8 then DECODE_FAULT BUFFER_OVERRUN
                               else
                                 DECODE_OKAY
                                   (VMX_INST_MEMREG_TYPE_MEMORY (seg_base + offset)
                                      (ucast sz) (reg2 info))
                                   (Some (copy_into dst x sz)) v1)))"

section \<open>VM-instruction status\<close>

definition vmreturn :: "cpu_user_regs \<Rightarrow> vmx_ops_result \<Rightarrow> cpu_user_regs" where
  "vmreturn regs ops_res =
     (let flag_mask = X86_EFLAGS_CF OR X86_EFLAGS_PF OR X86_EFLAGS_AF OR
                      X86_EFLAGS_ZF OR X86_EFLAGS_SF OR X86_EFLAGS_OF;
          fl = eflags regs AND NOT flag_mask
      in regs\<lparr>eflags :=
           (case ops_res of
              VMSUCCEED \<Rightarrow> fl
            | VMFAIL_VALID \<Rightarrow> fl OR X86_EFLAGS_ZF
            | VMFAIL_INVALID \<Rightarrow> fl OR X86_EFLAGS_CF)\<rparr>)"

section \<open>Shadow controls\<close>

definition n2_exec_control :: "vcpu \<Rightarrow> host_fault + u32" where
  "n2_exec_control v =
     (case get_vvmcs v (nv_vvmcx v) CPU_BASED_VM_EXEC_CONTROL of
        Inl f \<Rightarrow> Inl f
      | Inr x \<Rightarrow> Inr (ucast x))"

definition shadow_control :: "vcpu \<Rightarrow> u64 \<Rightarrow> u32 \<Rightarrow> host_fault + u32" where
  "shadow_control v field host_value =
     (case get_vvmcs v (nv_vvmcx v) field of
        Inl f \<Rightarrow> Inl f
      | Inr x \<Rightarrow> Inr (ucast x OR host_value))"

definition set_shadow_control :: "vcpu \<Rightarrow> u64 \<Rightarrow> u32 \<Rightarrow> host_fault + vcpu" where
  "set_shadow_control v field host_value =
     (case shadow_control v field host_value of
        Inl f \<Rightarrow> Inl f
      | Inr x \<Rightarrow> Inr (vmwrite v field (ucast x)))"

text \<open>Byte \<open>i\<close> of a page read as \<open>u8 bitmap[]\<close> (little-endian 64-bit slots).\<close>

definition page_byte :: "page \<Rightarrow> nat \<Rightarrow> u8" where
  "page_byte pg i = ucast (drop_bit (8 * (i mod 8)) (pg (i div 8)))"

text \<open>
  \<open>_shadow_io_bitmap\<close>: the result is the machine address of the page that
  \<open>nestedhvm_vcpu_iomap_get\<close> selects.
\<close>

definition shadow_io_bitmap :: "vcpu \<Rightarrow> host_fault + u64" where
  "shadow_io_bitmap v =
     (case deref v (iobitmap v 0) of
        Inl f \<Rightarrow> Inl f
      | Inr bitmap \<Rightarrow>
          (let port80 = (page_byte bitmap (drop_bit 3 0x80) AND push_bit (0x80 AND 7) 1 \<noteq> 0);
               portED = (page_byte bitmap (drop_bit 3 0xed) AND push_bit (0xed AND 7) 1 \<noteq> 0)
           in Inr (nestedhvm_vcpu_iomap_get v port80 portED)))"

definition nvmx_update_exec_control :: "vcpu \<Rightarrow> u32 \<Rightarrow> host_fault + vcpu" where
  "nvmx_update_exec_control v host_cntrl =
     (case n2_exec_control v of
        Inl f \<Rightarrow> Inl f
      | Inr l1 \<Rightarrow>
          (let pio_cntrl = (CPU_BASED_ACTIVATE_IO_BITMAP OR CPU_BASED_UNCOND_IO_EXITING) AND l1;
               shadow_cntrl =
                 (l1 AND NOT (CPU_BASED_TPR_SHADOW OR CPU_BASED_ACTIVATE_MSR_BITMAP OR
                              CPU_BASED_ACTIVATE_SECONDARY_CONTROLS OR
                              CPU_BASED_ACTIVATE_IO_BITMAP OR CPU_BASED_UNCOND_IO_EXITING))
                 OR host_cntrl
           in if pio_cntrl = CPU_BASED_UNCOND_IO_EXITING then
                Inr (vmwrite v CPU_BASED_VM_EXEC_CONTROL
                       (ucast ((shadow_cntrl OR CPU_BASED_UNCOND_IO_EXITING)
                               AND NOT CPU_BASED_ACTIVATE_IO_BITMAP)))
              else
                (case (if pio_cntrl = 0 then Inr (hvm_io_bitmap v) else shadow_io_bitmap v) of
                   Inl f \<Rightarrow> Inl f
                 | Inr bitmap \<Rightarrow>
                     Inr (vmwrite
                            (vmwrite (vmwrite v IO_BITMAP_A bitmap)
                               IO_BITMAP_B (bitmap + PAGE_SIZE))
                            CPU_BASED_VM_EXEC_CONTROL (ucast shadow_cntrl)))))"

definition nvmx_update_secondary_exec_control :: "vcpu \<Rightarrow> u64 \<Rightarrow> host_fault + vcpu" where
  "nvmx_update_secondary_exec_control v val =
     set_shadow_control v SECONDARY_VM_EXEC_CONTROL (ucast val)"

definition nvmx_update_exception_bitmap :: "vcpu \<Rightarrow> u64 \<Rightarrow> host_fault + vcpu" where
  "nvmx_update_exception_bitmap v val =
     set_shadow_control v EXCEPTION_BITMAP (ucast val)"

section \<open>VVMCS lifecycle\<close>

text \<open>
  \<open>__clear_current_vvmcs\<close> issues VMCLEAR on the shadow VMCS when there is one; that
  changes what the processor caches and nothing of the state modelled here.
\<close>

definition clear_current_vvmcs :: "vcpu \<Rightarrow> vcpu" where
  "clear_current_vvmcs v = v"

definition map_io_bitmap :: "vcpu \<Rightarrow> u64 \<Rightarrow> host_fault + vcpu" where
  "map_io_bitmap v vmcs_reg =
     (let idx = (if vmcs_reg = IO_BITMAP_A then 0 else 1 :: nat);
          v1 = (if iobitmap v idx \<noteq> NULL then hvm_unmap_guest_frame v (iobitmap v idx)
                else v)
      in case get_vvmcs v1 (nv_vvmcx v1) vmcs_reg of
           Inl f \<Rightarrow> Inl f
         | Inr gpa \<Rightarrow>
             (let (p, v2) = hvm_map_guest_frame v1 (drop_bit PAGE_SHIFT gpa)
              in Inr (v2\<lparr>iobitmap := (iobitmap v2)(idx := p)\<rparr>)))"

definition map_io_bitmap_all :: "vcpu \<Rightarrow> host_fault + vcpu" where
  "map_io_bitmap_all v =
     (case map_io_bitmap v IO_BITMAP_A of
        Inl f \<Rightarrow> Inl f
      | Inr v1 \<Rightarrow> map_io_bitmap v1 IO_BITMAP_B)"

text \<open>One round of the loop of \<open>nvmx_purge_vvmcs\<close> over the two I/O bitmaps.\<close>

definition purge_iobitmap :: "nat \<Rightarrow> vcpu \<Rightarrow> vcpu" where
  "purge_iobitmap i v =
     (if iobitmap v i \<noteq> NULL
      then (hvm_unmap_guest_frame v (iobitmap v i))\<lparr>iobitmap := (iobitmap v)(i := NULL)\<rparr>
      else v)"

text \<open>
  \<open>nvmx_purge_vvmcs\<close>. Its statement \<open>nvcpu->nv_vvmcx == NULL;\<close> is a comparison whose
  value is dropped, so \<open>nv_vvmcx\<close> keeps its value.
\<close>

definition nvmx_purge_vvmcs :: "vcpu \<Rightarrow> vcpu" where
  "nvmx_purge_vvmcs v =
     (let v1 = clear_current_vvmcs v;
          v2 = (if nv_vvmcxaddr v1 \<noteq> VMCX_EADDR
                then hvm_unmap_guest_frame v1 (nv_vvmcx v1) else v1);
          v3 = v2\<lparr>nv_vvmcxaddr := VMCX_EADDR\<rparr>
      in fold purge_iobitmap [0, 1] v3)"

text \<open>\<open>nvmx_vcpu_destroy\<close>: the purge, then the shadow VMCS page is freed.\<close>

definition nvmx_vcpu_destroy :: "vcpu \<Rightarrow> vcpu" where
  "nvmx_vcpu_destroy v =
     (let v1 = nvmx_purge_vvmcs v
      in case nv_n2vmcx v1 of
           None \<Rightarrow> v1
         | Some shadow \<Rightarrow> v1\<lparr>nv_n2vmcx := None\<rparr>)"

section \<open>VMX instruction handlers\<close>

text \<open>
  A handler either stops the host or returns its \<open>X86EMUL\<close> code with the registers and
  the vCPU as it leaves them.
\<close>

type_synonym handler_result = "host_fault + (x86emul \<times> cpu_user_regs \<times> vcpu)"

text \<open>
  \<open>nvmx_handle_vmxon\<close>. The fork of the host VMCS copies the hardware VMCS into the
  shadow page \<open>nv_n2vmcx\<close>; the VMCLEAR and VMPTRLD around the copy leave the hardware
  pointer where it was.
\<close>

definition nvmx_handle_vmxon :: "cpu_user_regs \<Rightarrow> vcpu \<Rightarrow> handler_result" where
  "nvmx_handle_vmxon regs v =
     (case decode_vmx_inst regs v (Some 0) True of
        DECODE_FAULT f \<Rightarrow> Inl f
      | DECODE_EXCEPTION v1 \<Rightarrow> Inr (X86EMUL_EXCEPTION, regs, v1)
      | DECODE_OKAY decode operand v1 \<Rightarrow>
          (case operand of
             None \<Rightarrow> Inl INDETERMINATE_READ
           | Some gpa \<Rightarrow>
               (case nv_n2vmcx v1 of
                  None \<Rightarrow> Inl NULL_DEREF
                | Some shadow \<Rightarrow>
                    Inr (X86EMUL_OKAY, vmreturn regs VMSUCCEED,
                         v1\<lparr>vmxon_region_pa := gpa, nv_n1vmcx := True,
                            nv_n2vmcx := Some (hw_vmcs v1),
                            hvm_vmx_launched := False\<rparr>))))"

definition nvmx_handle_vmxoff :: "cpu_user_regs \<Rightarrow> vcpu \<Rightarrow> handler_result" where
  "nvmx_handle_vmxoff regs v =
     (let (rc, v1) = vmx_inst_check_privilege regs v False
      in if rc \<noteq> X86EMUL_OKAY then Inr (rc, regs, v1)
         else
           let v2 = nvmx_purge_vvmcs v1
           in Inr (X86EMUL_OKAY, vmreturn regs VMSUCCEED, v2\<lparr>vmxon_region_pa := 0\<rparr>))"

text \<open>
  \<open>nvmx_vmresume\<close>. The condition is evaluated left to right: the execution controls
  are read from the VVMCS only when the address is valid and a bitmap is missing.
\<close>

definition nvmx_vmresume :: "vcpu \<Rightarrow> cpu_user_regs \<Rightarrow> handler_result" where
  "nvmx_vmresume v regs =
     (let (rc, v1) = vmx_inst_check_privilege regs v False
      in if rc \<noteq> X86EMUL_OKAY then Inr (rc, regs, v1)
         else if nv_vvmcxaddr v1 \<noteq> VMCX_EADDR then
           (if iobitmap v1 0 \<noteq> NULL \<and> iobitmap v1 1 \<noteq> NULL then
              Inr (X86EMUL_OKAY, regs, v1\<lparr>nv_vmentry_pending := True\<rparr>)
            else
              (case n2_exec_control v1 of
                 Inl f \<Rightarrow> Inl f
               | Inr ctl \<Rightarrow>
                   if ctl AND CPU_BASED_ACTIVATE_IO_BITMAP = 0 then
                     Inr (X86EMUL_OKAY, regs, v1\<lparr>nv_vmentry_pending := True\<rparr>)
                   else Inr (X86EMUL_OKAY, vmreturn regs VMFAIL_INVALID, v1)))
         else Inr (X86EMUL_OKAY, vmreturn regs VMFAIL_INVALID, v1))"

text \<open>
  \<open>nvmx_handle_vmresume\<close> and \<open>nvmx_handle_vmlaunch\<close>: \<open>int launched\<close> takes the low
  32 bits of the field.
\<close>

definition nvmx_handle_vmresume :: "cpu_user_regs \<Rightarrow> vcpu \<Rightarrow> handler_result" where
  "nvmx_handle_vmresume regs v =
     (case get_vvmcs v (nv_vvmcx v) NVMX_LAUNCH_STATE of
        Inl f \<Rightarrow> Inl f
      | Inr x \<Rightarrow>
          (let launched = (ucast x :: u32)
           in if launched = 0 then Inr (X86EMUL_EXCEPTION, vmreturn regs VMFAIL_VALID, v)
              else nvmx_vmresume v regs))"

definition nvmx_handle_vmlaunch :: "cpu_user_regs \<Rightarrow> vcpu \<Rightarrow> handler_result" where
  "nvmx_handle_vmlaunch regs v =
     (case get_vvmcs v (nv_vvmcx v) NVMX_LAUNCH_STATE of
        Inl f \<Rightarrow> Inl f
      | Inr x \<Rightarrow>
          (let launched = (ucast x :: u32)
           in if launched \<noteq> 0 then Inr (X86EMUL_EXCEPTION, vmreturn regs VMFAIL_VALID, v)
              else
                (case nvmx_vmresume v regs of
                   Inl f \<Rightarrow> Inl f
                 | Inr (rc, regs1, v1) \<Rightarrow>
                     if rc = X86EMUL_OKAY then
                       (case set_vvmcs v1 (nv_vvmcx v1) NVMX_LAUNCH_STATE 1 of
                          Inl f \<Rightarrow> Inl f
                        | Inr v2 \<Rightarrow> Inr (rc, regs1, v2))
                     else Inr (rc, regs1, v1))))"

definition nvmx_handle_vmptrld :: "cpu_user_regs \<Rightarrow> vcpu \<Rightarrow> handler_result" where
  "nvmx_handle_vmptrld regs v =
     (case decode_vmx_inst regs v (Some 0) False of
        DECODE_FAULT f \<Rightarrow> Inl f
      | DECODE_EXCEPTION v1 \<Rightarrow> Inr (X86EMUL_EXCEPTION, regs, v1)
      | DECODE_OKAY decode operand v1 \<Rightarrow>
          (case operand of
             None \<Rightarrow> Inl INDETERMINATE_READ
           | Some gpa \<Rightarrow>
               if gpa = vmxon_region_pa v1 \<or> gpa AND 0xfff \<noteq> 0 then
                 Inr (X86EMUL_OKAY, vmreturn regs VMFAIL_INVALID, v1)
               else
                 let v2 = (if nv_vvmcxaddr v1 \<noteq> gpa then nvmx_purge_vvmcs v1 else v1)
                 in if nv_vvmcxaddr v2 = VMCX_EADDR then
                      (let (p, v3) = hvm_map_guest_frame v2 (drop_bit PAGE_SHIFT gpa);
                           v4 = v3\<lparr>nv_vvmcx := p, nv_vvmcxaddr := gpa\<rparr>
                       in case map_io_bitmap_all v4 of
                            Inl f \<Rightarrow> Inl f
                          | Inr v5 \<Rightarrow> Inr (X86EMUL_OKAY, vmreturn regs VMSUCCEED, v5))
                    else Inr (X86EMUL_OKAY, vmreturn regs VMSUCCEED, v2)))"

text \<open>
  \<open>nvmx_handle_vmptrst\<close>. With a register operand the code passes the members
  \<open>mem\<close> and \<open>len\<close> of the union, which the decoder has not written.
\<close>

definition nvmx_handle_vmptrst :: "cpu_user_regs \<Rightarrow> vcpu \<Rightarrow> handler_result" where
  "nvmx_handle_vmptrst regs v =
     (case decode_vmx_inst regs v (Some 0) False of
        DECODE_FAULT f \<Rightarrow> Inl f
      | DECODE_EXCEPTION v1 \<Rightarrow> Inr (X86EMUL_EXCEPTION, regs, v1)
      | DECODE_OKAY decode operand v1 \<Rightarrow>
          (let gpa = nv_vvmcxaddr v1
           in case decode of
                VMX_INST_MEMREG_TYPE_REG r1 r2 \<Rightarrow> Inl INDETERMINATE_READ
              | VMX_INST_MEMREG_TYPE_MEMORY mem len r2 \<Rightarrow>
                  if \<not> guest_virt_writable v1 mem (ucast len) then
                    Inr (X86EMUL_EXCEPTION, regs, v1)
                  else
                    Inr (X86EMUL_OKAY, vmreturn regs VMSUCCEED,
                         v1\<lparr>guest_virt_written :=
                              guest_virt_written v1 @ [(mem, gpa, ucast len)]\<rparr>)))"

definition nvmx_handle_vmclear :: "cpu_user_regs \<Rightarrow> vcpu \<Rightarrow> handler_result" where
  "nvmx_handle_vmclear regs v =
     (case decode_vmx_inst regs v (Some 0) False of
        DECODE_FAULT f \<Rightarrow> Inl f
      | DECODE_EXCEPTION v1 \<Rightarrow> Inr (X86EMUL_EXCEPTION, regs, v1)
      | DECODE_OKAY decode operand v1 \<Rightarrow>
          (case operand of
             None \<Rightarrow> Inl INDETERMINATE_READ
           | Some gpa \<Rightarrow>
               if gpa AND 0xfff \<noteq> 0 then
                 Inr (X86EMUL_OKAY, vmreturn regs VMFAIL_INVALID, v1)
               else if gpa \<noteq> nv_vvmcxaddr v1 \<and> nv_vvmcxaddr v1 \<noteq> VMCX_EADDR then
                 Inr (X86EMUL_OKAY, vmreturn regs VMSUCCEED, v1)
               else
                 (case (if nv_vvmcxaddr v1 \<noteq> VMCX_EADDR
                        then set_vvmcs v1 (nv_vvmcx v1) NVMX_LAUNCH_STATE 0
                        else Inr v1) of
                    Inl f \<Rightarrow> Inl f
                  | Inr v2 \<Rightarrow>
                      Inr (X86EMUL_OKAY, vmreturn regs VMSUCCEED, nvmx_purge_vvmcs v2))))"

definition nvmx_handle_vmread :: "cpu_user_regs \<Rightarrow> vcpu \<Rightarrow> handler_result" where
  "nvmx_handle_vmread regs v =
     (case decode_vmx_inst regs v None False of
        DECODE_FAULT f \<Rightarrow> Inl f
      | DECODE_EXCEPTION v1 \<Rightarrow> Inr (X86EMUL_EXCEPTION, regs, v1)
      | DECODE_OKAY decode operand v1 \<Rightarrow>
          (case get_vvmcs v1 (nv_vvmcx v1)
                  (reg_read regs
                     (case decode of
                        VMX_INST_MEMREG_TYPE_MEMORY mem len r2 \<Rightarrow> r2
                      | VMX_INST_MEMREG_TYPE_REG r1 r2 \<Rightarrow> r2)) of
             Inl f \<Rightarrow> Inl f
           | Inr val \<Rightarrow>
               (case decode of
                  VMX_INST_MEMREG_TYPE_MEMORY mem len r2 \<Rightarrow>
                    if \<not> guest_virt_writable v1 mem (ucast len) then
                      Inr (X86EMUL_EXCEPTION, regs, v1)
                    else
                      Inr (X86EMUL_OKAY, vmreturn regs VMSUCCEED,
                           v1\<lparr>guest_virt_written :=
                                guest_virt_written v1 @ [(mem, val, ucast len)]\<rparr>)
                | VMX_INST_MEMREG_TYPE_REG r1 r2 \<Rightarrow>
                    Inr (X86EMUL_OKAY, vmreturn (reg_write regs r1 val) VMSUCCEED, v1))))"

text \<open>
  \<open>nvmx_handle_vmwrite\<close>; \<open>operand0\<close> is what the uninitialised local \<open>operand\<close>
  holds before the decoder copies the source operand into it.
\<close>

definition nvmx_handle_vmwrite :: "u64 \<Rightarrow> cpu_user_regs \<Rightarrow> vcpu \<Rightarrow> handler_result" where
  "nvmx_handle_vmwrite operand0 regs v =
     (case decode_vmx_inst regs v (Some operand0) False of
        DECODE_FAULT f \<Rightarrow> Inl f
      | DECODE_EXCEPTION v1 \<Rightarrow> Inr (X86EMUL_EXCEPTION, regs, v1)
      | DECODE_OKAY decode opnd v1 \<Rightarrow>
          (case opnd of
             None \<Rightarrow> Inl INDETERMINATE_READ
           | Some operand \<Rightarrow>
               (let vmcs_encoding =
                      reg_read regs
                        (case decode of
                           VMX_INST_MEMREG_TYPE_MEMORY mem len r2 \<Rightarrow> r2
                         | VMX_INST_MEMREG_TYPE_REG r1 r2 \<Rightarrow> r2)
                in case set_vvmcs v1 (nv_vvmcx v1) vmcs_encoding operand of
                     Inl f \<Rightarrow> Inl f
                   | Inr v2 \<Rightarrow>
                       (case (if vmcs_encoding = IO_BITMAP_A \<or>
                                 vmcs_encoding = IO_BITMAP_A_HIGH
                              then map_io_bitmap v2 IO_BITMAP_A
                              else if vmcs_encoding = IO_BITMAP_B \<or>
                                      vmcs_encoding = IO_BITMAP_B_HIGH
                              then map_io_bitmap v2 IO_BITMAP_B
                              else Inr v2) of
                          Inl f \<Rightarrow> Inl f
                        | Inr v3 \<Rightarrow> Inr (X86EMUL_OKAY, vmreturn regs VMSUCCEED, v3)))))"

section \<open>A concrete guest\<close>

text \<open>
  A 64-bit guest hypervisor at CPL 0 whose VM exit reports a memory operand
  \<open>DS:[RAX + RBX * 4 + 0x20]\<close> with 64-bit address size, DS based at 0x100000, RBX = 0x10.
  Guest memory holds an all-zero page at frames 0 and 0x12345, and at frame 0x54321 a VVMCS
  that asks for I/O-bitmap exiting and names an I/O bitmap A at a frame the guest does not
  have. The operands at the linear addresses below are the guest-physical addresses the
  guest hands to VMXON and VMPTRLD.
\<close>

definition regs0 :: cpu_user_regs where
  "regs0 =
     \<lparr>eax = 0x1000, ecx = 0x4002, edx = 0, ebx = 0x10, ebp = 0, esi = 0, edi = 0, esp = 0,
      r8 = 0, r9 = 0, r10 = 0, r11 = 0, r12 = 0, r13 = 0, r14 = 0, r15 = 0,
      eflags = 0x2\<rparr>"

definition info0 :: vmx_inst_info where
  "info0 =
     \<lparr>scaling = 2, reg1 = VMX_REG_RDX, addr_size = 2, memreg = False,
      segment = VMX_SREG_DS, index_reg = VMX_REG_RBX, index_reg_invalid = False,
      base_reg = VMX_REG_RAX, base_reg_invalid = False, reg2 = VMX_REG_RCX\<rparr>"

definition segs0 :: "x86_segment \<Rightarrow> segment_register" where
  "segs0 s =
     \<lparr>sel = (if s = x86_seg_cs then 0x10 else 0x18), attr_l = (s = x86_seg_cs),
      limit = 0xffffffff, base = (if s = x86_seg_ds then 0x100000 else 0)\<rparr>"

definition io_page :: page where
  "io_page = (\<lambda>_. 0)(0x101 := 0x02000000, 0x80 := 0xdead000)"

definition phys0 :: "u64 \<Rightarrow> page option" where
  "phys0 gfn =
     (if gfn = 0x12345 \<or> gfn = 0 then Some (\<lambda>_. 0)
      else if gfn = 0x54321 then Some io_page
      else None)"

definition virt0 :: "u64 \<Rightarrow> u64 \<Rightarrow> u64 option" where
  "virt0 a n =
     (if a = 0x101060 then Some 0x7000
      else if a = 0x102060 then Some 0x12345000
      else if a = 0x103060 then Some 0x7001
      else if a = 0x104060 then Some 0x54321000
      else None)"

definition vcpu0 :: vcpu where
  "vcpu0 =
     \<lparr>guest_cr0 = 0x80050033, guest_cr4 = 0x2020, hvm_long_mode_enabled = True,
      seg_regs = segs0, vmxon_region_pa = 0, iobitmap = (\<lambda>_. NULL), nv_vvmcx = NULL,
      nv_vvmcxaddr = 0, nv_vmentry_pending = False, nv_n1vmcx = False, nv_n2vmcx = None,
      hvm_vmx_launched = True, hw_inst_info = info0,
      hw_vmcs = (\<lambda>_. 0)(EXIT_QUALIFICATION := 0x20),
      guest_phys = phys0, host_maps = (\<lambda>_. None), next_map = 0,
      guest_virt_read = virt0, guest_virt_writable = (\<lambda>_ _. True),
      guest_virt_written = [], injected = [], hvm_io_bitmap = 0x800000,
      nestedhvm_vcpu_iomap_get =
        (\<lambda>p80 pED. 0x900000 + (if p80 then 0x2000 else 0) + (if pED then 0x4000 else 0))\<rparr>"

text \<open>The vCPU after \<open>nvmx_vcpu_initialise\<close>, and after a VMXON with operand 0x7000.\<close>

definition st_init :: vcpu where
  "st_init = snd (nvmx_vcpu_initialise vcpu0 (Some (\<lambda>_. 0)))"

definition st_on :: vcpu where
  "st_on =
     st_init\<lparr>vmxon_region_pa := 0x7000, nv_n1vmcx := True,
       nv_n2vmcx := Some (hw_vmcs st_init), hvm_vmx_launched := False\<rparr>"

text \<open>After VMPTRLD of 0x12345000: the VVMCS and both I/O bitmaps are mapped.\<close>

definition regs_ld :: cpu_user_regs where
  "regs_ld = regs0\<lparr>eax := 0x2000\<rparr>"

definition st_loaded :: vcpu where
  "st_loaded =
     st_on\<lparr>nv_vvmcx := Ptr 0, nv_vvmcxaddr := 0x12345000,
       iobitmap := (\<lambda>_. NULL)(0 := Ptr 1, 1 := Ptr 2),
       host_maps := (\<lambda>_. None)(0 := Some 0x12345, 1 := Some 0, 2 := Some 0),
       next_map := 3\<rparr>"

text \<open>The same guest at CPL 3: the selector in CS has RPL 3.\<close>

definition st_user :: vcpu where
  "st_user = st_loaded\<lparr>seg_regs := segs0(x86_seg_cs := (segs0 x86_seg_cs)\<lparr>sel := 0x13\<rparr>)\<rparr>"

text \<open>After VMLAUNCH on \<open>st_loaded\<close>: the launch state in the VVMCS is 1.\<close>

definition st_launched :: vcpu where
  "st_launched =
     st_loaded\<lparr>guest_phys := phys0(0x12345 := Some ((\<lambda>_. 0)(0x1f0 := 1))),
       nv_vmentry_pending := True\<rparr>"

text \<open>
  After VMPTRLD of 0x54321000 instead: that VVMCS sets CPU_BASED_ACTIVATE_IO_BITMAP, and
  its I/O bitmap A could not be mapped.
\<close>

definition regs_io :: cpu_user_regs where
  "regs_io = regs0\<lparr>eax := 0x4000\<rparr>"

definition st_io :: vcpu where
  "st_io =
     st_on\<lparr>nv_vvmcx := Ptr 0, nv_vvmcxaddr := 0x54321000,
       iobitmap := (\<lambda>_. NULL)(1 := Ptr 1),
       host_maps := (\<lambda>_. None)(0 := Some 0x54321, 1 := Some 0),
       next_map := 2\<rparr>"

text \<open>Registers for a VMXON whose operand is 0x7001.\<close>

definition regs_mis :: cpu_user_regs where
  "regs_mis = regs0\<lparr>eax := 0x3000\<rparr>"

text \<open>
  \<open>st_loaded\<close> with the execution controls \<open>ctl\<close> in the VVMCS and an I/O bitmap A
  whose third 64-bit slot (bytes 0x10 to 0x17) is \<open>slot2\<close>.
\<close>

definition st_ctl :: "u64 \<Rightarrow> u64 \<Rightarrow> vcpu" where
  "st_ctl ctl slot2 =
     st_loaded\<lparr>guest_phys :=
       phys0(0x12345 := Some ((\<lambda>_. 0)(0x101 := ctl)), 0 := Some ((\<lambda>_. 0)(2 := slot2)))\<rparr>"

section \<open>Codec: proofs\<close>

lemma drop_push_32:
  "drop_bit 32 (push_bit 32 (v :: u64)) = v AND 0xffffffff"
proof -
  have m: "(0xffffffff :: u64) = mask 32"
    by (simp add: mask_eq_exp_minus_1)
  show ?thesis
    unfolding m by (rule bit_word_eqI) (auto simp add: bit_simps)
qed

lemma drop_low_32:
  "drop_bit 32 ((r :: u64) AND 0xffffffff) = 0"
proof -
  have m: "(0xffffffff :: u64) = mask 32"
    by (simp add: mask_eq_exp_minus_1)
  show ?thesis
    unfolding m by (rule bit_word_eqI) (auto simp add: bit_simps)
qed

lemma hi_half_roundtrip:
  "drop_bit 32 ((r AND 0xffffffff) OR push_bit 32 (v :: u64)) = v AND 0xffffffff"
  using drop_push_32 [of v] drop_low_32 [of r] by (simp only: drop_bit_or) simp

text \<open>The round trip on the fields of the union, wherever they sit in the encoding word.\<close>

lemma codec_roundtrip_fields:
  "get_vvmcs_enc (set_vvmcs_enc content enc v) enc = mask_for_enc enc v"
  by (simp add: get_vvmcs_enc_def set_vvmcs_enc_def mask_for_enc_def Let_def
      hi_half_roundtrip drop_push_32 drop_low_32 VVMCS_WIDTH_16_def VVMCS_WIDTH_64_def
      VVMCS_WIDTH_32_def word_bw_assocs)

text \<open>
  C6. Writing \<open>v\<close> at any encoding and reading the same encoding back from the same page
  gives \<open>v\<close> masked to the encoding's width: 16 bits, 32 bits (also for the high half of a
  64-bit field), or all of it (64-bit low access, natural width).
\<close>

theorem codec_roundtrip:
  "get_vvmcs_page (set_vvmcs_page content e v) e = mask_for e v"
  by (simp add: get_vvmcs_page_def set_vvmcs_page_def mask_for_def codec_roundtrip_fields)

text \<open>The codec indexes only slots 1 to 511 of the page, whatever the encoding word.\<close>

lemma offset_low_bits:
  fixes idx ty wd :: u32
  defines "x \<equiv> (idx AND 0x1f) OR push_bit 5 (ty AND 3) OR push_bit 7 (wd AND 3)"
  shows "x = x AND mask 9"
proof -
  have m5: "(0x1f :: u32) = mask 5" and m2: "(3 :: u32) = mask 2"
    by (simp_all add: mask_eq_exp_minus_1)
  show ?thesis
    unfolding x_def m5 m2
    by (rule bit_word_eqI) (auto simp add: bit_simps)
qed

lemma offset_lt_512:
  fixes idx ty wd :: u32
  shows "(idx AND 0x1f) OR push_bit 5 (ty AND 3) OR push_bit 7 (wd AND 3) < 512"
proof -
  let ?x = "(idx AND 0x1f) OR push_bit 5 (ty AND 3) OR push_bit 7 (wd AND 3)"
  have "?x AND mask 9 < 2 ^ 9"
    by (rule and_mask_less') simp
  then show ?thesis
    using offset_low_bits [of idx ty wd] by simp
qed

lemma sint_small:
  assumes "(x :: u32) < 512"
  shows "sint x = uint x"
proof -
  have "uint x < 512"
    using assms by (simp add: word_less_alt)
  moreover have "- (2 ^ 31) \<le> uint x"
    by (rule order_trans [of _ 0]) simp_all
  ultimately have "signed_take_bit 31 (uint x) = uint x"
    by (intro signed_take_bit_int_eq_self) simp_all
  then show ?thesis
    by (simp add: sint_uint)
qed

lemma vvmcs_offset_in_page: "0 < enc_slot e \<and> enc_slot e < 512"
proof -
  let ?enc = "enc_of_word e"
  let ?off = "vvmcs_offset (width ?enc) (type ?enc) (index ?enc)"
  have raw: "(index ?enc AND 0x1f) OR push_bit 5 (type ?enc) OR push_bit 7 (width ?enc) < 512"
    using offset_lt_512 [of "drop_bit 1 e AND 0x1ff" "drop_bit 10 e" "drop_bit 13 e"]
    by (simp add: enc_of_word_def)
  have off: "?off < 512" "?off \<noteq> 0"
    using raw by (auto simp add: vvmcs_offset_def Let_def)
  have "sint ?off = uint ?off"
    using off(1) by (rule sint_small)
  moreover have "unat ?off < 512" "unat ?off \<noteq> 0"
    using off by (simp_all add: word_less_nat_alt unat_eq_zero)
  ultimately show ?thesis
    by (simp add: enc_slot_def slot_of_def Let_def)
qed

text \<open>
  Writing 0xAABBCCDD at the 16-bit encoding 0x0800 (guest ES selector) and reading it back
  gives 0xCCDD.
\<close>

theorem codec_roundtrip_witness:
  "get_vvmcs_page (set_vvmcs_page (\<lambda>_. 0) 0x0800 0xAABBCCDD) 0x0800 = 0xCCDD"
  using codec_roundtrip [of "\<lambda>_. 0" "0x0800" "0xAABBCCDD"]
  by (simp add: mask_for_def mask_for_enc_def enc_of_word_def VVMCS_WIDTH_16_def)

subsection \<open>The fields the handlers use\<close>

lemma enc_launch_state:
  "enc_of_word (ucast NVMX_LAUNCH_STATE) =
     \<lparr>access_type = False, index = 0x10, type = 3, width = 3\<rparr>"
  by (simp add: enc_of_word_def NVMX_LAUNCH_STATE_def)

lemma slot_launch_state:
  "slot_of \<lparr>access_type = False, index = 0x10, type = 3, width = 3\<rparr> = 0x1f0"
  by (simp add: slot_of_def vvmcs_offset_def)

lemma enc_exec_control:
  "enc_of_word (ucast CPU_BASED_VM_EXEC_CONTROL) =
     \<lparr>access_type = False, index = 1, type = 0, width = 2\<rparr>"
  by (simp add: enc_of_word_def CPU_BASED_VM_EXEC_CONTROL_def)

lemma slot_exec_control:
  "slot_of \<lparr>access_type = False, index = 1, type = 0, width = 2\<rparr> = 0x101"
  by (simp add: slot_of_def vvmcs_offset_def)

lemma enc_io_bitmap_a:
  "enc_of_word (ucast IO_BITMAP_A) =
     \<lparr>access_type = False, index = 0, type = 0, width = 1\<rparr>"
  by (simp add: enc_of_word_def IO_BITMAP_A_def)

lemma slot_io_bitmap_a:
  "slot_of \<lparr>access_type = False, index = 0, type = 0, width = 1\<rparr> = 0x80"
  by (simp add: slot_of_def vvmcs_offset_def)

lemma enc_io_bitmap_b:
  "enc_of_word (ucast IO_BITMAP_B) =
     \<lparr>access_type = False, index = 1, type = 0, width = 1\<rparr>"
  by (simp add: enc_of_word_def IO_BITMAP_B_def)

lemma slot_io_bitmap_b:
  "slot_of \<lparr>access_type = False, index = 1, type = 0, width = 1\<rparr> = 0x81"
  by (simp add: slot_of_def vvmcs_offset_def)

lemmas width_defs = VVMCS_WIDTH_16_def VVMCS_WIDTH_64_def VVMCS_WIDTH_32_def
  get_vvmcs_enc_def set_vvmcs_enc_def

lemma get_launch_state: "get_vvmcs_page pg (ucast NVMX_LAUNCH_STATE) = pg 0x1f0"
  by (simp add: get_vvmcs_page_def enc_launch_state slot_launch_state width_defs)

lemma set_launch_state:
  "set_vvmcs_page pg (ucast NVMX_LAUNCH_STATE) x = pg(0x1f0 := x)"
  by (simp add: set_vvmcs_page_def enc_launch_state slot_launch_state width_defs)

lemma get_exec_control:
  "get_vvmcs_page pg (ucast CPU_BASED_VM_EXEC_CONTROL) = pg 0x101 AND 0xffffffff"
  by (simp add: get_vvmcs_page_def enc_exec_control slot_exec_control width_defs)

lemma get_io_bitmap_a: "get_vvmcs_page pg (ucast IO_BITMAP_A) = pg 0x80"
  by (simp add: get_vvmcs_page_def enc_io_bitmap_a slot_io_bitmap_a width_defs)

lemma get_io_bitmap_b: "get_vvmcs_page pg (ucast IO_BITMAP_B) = pg 0x81"
  by (simp add: get_vvmcs_page_def enc_io_bitmap_b slot_io_bitmap_b width_defs)

section \<open>Privilege check: proofs\<close>

text \<open>
  C7. The privilege check, for every guest state: #UD (vector 6, error code 0) and
  EXCEPTION when the VMXON flavour finds CR0.PE or CR4.VMXE clear, when the other flavour
  finds \<open>vmxon_region_pa\<close> zero, or when EFLAGS.VM is set or long mode is on with CS.L
  clear; otherwise #GP(0) (vector 13) and EXCEPTION when the CPL in CS is not 0; otherwise
  OK with nothing injected and the vCPU unchanged.
\<close>

theorem privilege_check:
  "vmx_inst_check_privilege regs v vmxop_check =
     (if (if vmxop_check
          then guest_cr0 v AND X86_CR0_PE = 0 \<or> guest_cr4 v AND X86_CR4_VMXE = 0
          else vmxon_region_pa v = 0)
         \<or> eflags regs AND X86_EFLAGS_VM \<noteq> 0
         \<or> (hvm_long_mode_enabled v \<and> \<not> attr_l (seg_regs v x86_seg_cs))
      then (X86EMUL_EXCEPTION, v\<lparr>injected := injected v @ [(6, 0, 0)]\<rparr>)
      else if sel (seg_regs v x86_seg_cs) AND 3 \<noteq> 0
      then (X86EMUL_EXCEPTION, v\<lparr>injected := injected v @ [(13, 0, 0)]\<rparr>)
      else (X86EMUL_OKAY, v))"
  by (auto simp add: vmx_inst_check_privilege_def hvm_inject_exception_def
      hvm_get_segment_register_def TRAP_invalid_op_def TRAP_gp_fault_def Let_def
      word_greater_zero_iff)

lemmas ex_defs = st_loaded_def st_on_def st_init_def nvmx_vcpu_initialise_def vcpu0_def
  regs0_def regs_ld_def segs0_def info0_def phys0_def virt0_def io_page_def

lemmas const_defs = X86_CR0_PE_def X86_CR4_VMXE_def X86_EFLAGS_VM_def
  X86_EFLAGS_CF_def X86_EFLAGS_PF_def X86_EFLAGS_AF_def X86_EFLAGS_ZF_def
  X86_EFLAGS_SF_def X86_EFLAGS_OF_def sreg_to_index_def
  VMX_SREG_ES_def VMX_SREG_CS_def VMX_SREG_SS_def VMX_SREG_DS_def VMX_SREG_FS_def
  VMX_SREG_GS_def EXIT_QUALIFICATION_def VMCX_EADDR_def PAGE_SHIFT_def PAGE_SIZE_def
  TRAP_invalid_op_def TRAP_gp_fault_def

text \<open>
  On the concrete guest: at CPL 0 after VMXON the check passes; before VMXON it injects
  #UD; with CPL 3 in CS after VMXON it injects #GP(0).
\<close>

theorem privilege_check_witness:
  "vmx_inst_check_privilege regs0 st_on False = (X86EMUL_OKAY, st_on) \<and>
   vmx_inst_check_privilege regs0 st_init False =
     (X86EMUL_EXCEPTION, st_init\<lparr>injected := [(6, 0, 0)]\<rparr>) \<and>
   vmx_inst_check_privilege regs0
       (st_on\<lparr>seg_regs := segs0(x86_seg_cs := (segs0 x86_seg_cs)\<lparr>sel := 0x13\<rparr>)\<rparr>) False =
     (X86EMUL_EXCEPTION,
      st_on\<lparr>seg_regs := segs0(x86_seg_cs := (segs0 x86_seg_cs)\<lparr>sel := 0x13\<rparr>),
        injected := [(13, 0, 0)]\<rparr>)"
  using privilege_check [of regs0 st_on False] privilege_check [of regs0 st_init False]
    privilege_check [of regs0
      "st_on\<lparr>seg_regs := segs0(x86_seg_cs := (segs0 x86_seg_cs)\<lparr>sel := 0x13\<rparr>)\<rparr>" False]
  by (simp add: ex_defs const_defs)

lemma gate_okay_unchanged:
  "vmx_inst_check_privilege regs v c = (X86EMUL_OKAY, v1) \<Longrightarrow> v1 = v"
  by (auto simp add: vmx_inst_check_privilege_def Let_def split: if_splits)

section \<open>Decoder: proofs\<close>

lemma ucast_len: "(ucast (2 ^ k :: u64) :: u32) = 2 ^ k"
  by (rule bit_word_eqI) (auto simp add: bit_simps)

text \<open>
  C10. For a memory-form operand (memreg clear) the decoder returns OK exactly when the
  privilege check passes, the segment field is at most 5, the limit check does not
  apply or is met, and the operand copy, if one is asked for, succeeds; the decoded
  address is then the segment base plus base register (0 when invalid) plus index register
  (0 when invalid) times 2 to the scaling plus the displacement, in 64-bit arithmetic, and
  the length is 2 to the (address size + 1).
\<close>

theorem decoder_linear_address:
  fixes regs :: cpu_user_regs and v :: vcpu
  defines "info \<equiv> hw_inst_info v"
  defines "seg \<equiv> seg_regs v (sreg_to_index (segment info))"
  defines "offset \<equiv>
     (if base_reg_invalid info then 0 else reg_read regs (base_reg info))
     + (if index_reg_invalid info then 0 else reg_read regs (index_reg info))
       * 2 ^ unat (scaling info)
     + hw_vmcs v EXIT_QUALIFICATION"
  defines "len \<equiv> 2 ^ (unat (addr_size info) + 1)"
  assumes "\<not> memreg info"
  shows "decode_vmx_inst regs v poperandS vmxon_check = DECODE_OKAY d opnd v' \<longleftrightarrow>
     fst (vmx_inst_check_privilege regs v vmxon_check) = X86EMUL_OKAY \<and>
     segment info \<le> 5 \<and>
     \<not> ((offset > ucast (limit seg) \<or> offset + len > ucast (limit seg)) \<and>
        (\<not> hvm_long_mode_enabled v \<or> segment info = VMX_SREG_GS)) \<and>
     (case poperandS of
        None \<Rightarrow> opnd = None
      | Some dst \<Rightarrow>
          (\<exists>x. guest_virt_read v (base seg + offset) len = Some x \<and> len \<le> 8 \<and>
               opnd = Some (copy_into dst x len))) \<and>
     d = VMX_INST_MEMREG_TYPE_MEMORY (base seg + offset) (2 ^ (unat (addr_size info) + 1))
           (reg2 info) \<and>
     v' = v"
proof -
  obtain rc v1 where g: "vmx_inst_check_privilege regs v vmxon_check = (rc, v1)"
    by (cases "vmx_inst_check_privilege regs v vmxon_check")
  show ?thesis
  proof (cases "rc = X86EMUL_OKAY")
    case False
    then show ?thesis
      by (simp add: decode_vmx_inst_def g)
  next
    case True
    with g have v1: "v1 = v"
      by (simp add: gate_okay_unchanged)
    have d: "decode_vmx_inst regs v poperandS vmxon_check =
       (if segment info > 5 then DECODE_EXCEPTION (hvm_inject_exception v TRAP_gp_fault 0 0)
        else if (offset > ucast (limit seg) \<or> offset + len > ucast (limit seg)) \<and>
                (\<not> hvm_long_mode_enabled v \<or> segment info = VMX_SREG_GS)
        then DECODE_EXCEPTION (hvm_inject_exception v TRAP_gp_fault 0 0)
        else
          (case poperandS of
             None \<Rightarrow>
               DECODE_OKAY
                 (VMX_INST_MEMREG_TYPE_MEMORY (base seg + offset)
                    (2 ^ (unat (addr_size info) + 1)) (reg2 info))
                 None v
           | Some dst \<Rightarrow>
               (case guest_virt_read v (base seg + offset) len of
                  None \<Rightarrow> DECODE_EXCEPTION v
                | Some x \<Rightarrow>
                    if len > 8 then DECODE_FAULT BUFFER_OVERRUN
                    else
                      DECODE_OKAY
                        (VMX_INST_MEMREG_TYPE_MEMORY (base seg + offset)
                           (2 ^ (unat (addr_size info) + 1)) (reg2 info))
                        (Some (copy_into dst x len)) v)))"
      using assms(5) True
      by (simp add: decode_vmx_inst_def g v1 info_def seg_def offset_def len_def
          Let_def hvm_get_segment_register_def vmread_def ucast_len
          del: power_Suc split: option.split)
    show ?thesis
      unfolding d using True g
      by (cases poperandS; cases "guest_virt_read v (base seg + offset) len")
         (auto simp add: not_less not_le)
  qed
qed

text \<open>
  With base RAX = 0x1000, index RBX = 0x10, scaling 2, displacement 0x20 and DS based at
  0x100000 the decoded address is 0x101060, and the length for 64-bit address size is 8.
\<close>

theorem decoder_linear_address_witness:
  "\<not> memreg (hw_inst_info st_init) \<and>
   decode_vmx_inst regs0 st_init (Some 0) True =
     DECODE_OKAY (VMX_INST_MEMREG_TYPE_MEMORY 0x101060 8 VMX_REG_RCX) (Some 0x7000) st_init"
  using decoder_linear_address [where v = st_init and regs = regs0
      and poperandS = "Some 0" and vmxon_check = True
      and d = "VMX_INST_MEMREG_TYPE_MEMORY 0x101060 8 VMX_REG_RCX"
      and opnd = "Some 0x7000" and v' = st_init]
  by (simp add: ex_defs const_defs vmx_inst_check_privilege_def hvm_get_segment_register_def
      copy_into_def Let_def)

section \<open>VMLAUNCH and VMRESUME: proofs\<close>

lemma and_or_disjoint:
  fixes x m f k :: "'a::len word"
  assumes "m AND k = 0" and "f AND k = 0"
  shows "((x AND NOT m) OR f) AND k = x AND k"
proof (rule bit_word_eqI)
  fix n
  assume "n < LENGTH('a)"
  have "bit (m AND k) n = bit (0 :: 'a word) n" "bit (f AND k) n = bit (0 :: 'a word) n"
    using assms by simp_all
  then have "\<not> (bit m n \<and> bit k n)" "\<not> (bit f n \<and> bit k n)"
    by (simp_all add: bit_and_iff)
  then show "bit (((x AND NOT m) OR f) AND k) n = bit (x AND k) n"
    using \<open>n < LENGTH('a)\<close> by (auto simp add: bit_simps)
qed

lemma vmreturn_keeps_vm:
  "eflags (vmreturn regs r) AND X86_EFLAGS_VM = eflags regs AND X86_EFLAGS_VM"
proof -
  let ?m = "X86_EFLAGS_CF OR X86_EFLAGS_PF OR X86_EFLAGS_AF OR
            X86_EFLAGS_ZF OR X86_EFLAGS_SF OR X86_EFLAGS_OF"
  have m: "?m AND X86_EFLAGS_VM = 0"
    by (simp add: const_defs)
  have "((eflags regs AND NOT ?m) OR f) AND X86_EFLAGS_VM = eflags regs AND X86_EFLAGS_VM"
    if "f AND X86_EFLAGS_VM = 0" for f
    using m that by (rule and_or_disjoint)
  from this [of 0] this [of X86_EFLAGS_ZF] this [of X86_EFLAGS_CF]
  show ?thesis
    by (cases r) (simp_all add: vmreturn_def Let_def const_defs)
qed

lemma frame_of_pending:
  "frame_of (v\<lparr>nv_vmentry_pending := b\<rparr>) p = frame_of v p"
  by (simp add: frame_of_def split: ptr.split option.split)

lemma gate_vmreturn:
  "vmx_inst_check_privilege (vmreturn regs r) v c = vmx_inst_check_privilege regs v c"
  by (simp add: vmx_inst_check_privilege_def vmreturn_keeps_vm Let_def)

lemma gate_okay_pending_phys:
  assumes "fst (vmx_inst_check_privilege regs v c) = X86EMUL_OKAY"
  shows "vmx_inst_check_privilege regs (v\<lparr>guest_phys := g, nv_vmentry_pending := p\<rparr>) c =
     (X86EMUL_OKAY, v\<lparr>guest_phys := g, nv_vmentry_pending := p\<rparr>)"
  using assms
  by (auto simp add: vmx_inst_check_privilege_def Let_def hvm_get_segment_register_def
      split: if_splits)

lemma gate_okay_eq:
  assumes "fst (vmx_inst_check_privilege regs v c) = X86EMUL_OKAY"
  shows "vmx_inst_check_privilege regs v c = (X86EMUL_OKAY, v)"
  using assms gate_okay_unchanged [of regs v c "snd (vmx_inst_check_privilege regs v c)"]
  by (cases "vmx_inst_check_privilege regs v c") auto

text \<open>
  C3, as the code has it. From a state with a mapped current VVMCS whose launch state is
  0, where both I/O bitmaps are mapped or the VVMCS does not ask for them, and whatever
  the registers are at each step (\<open>regs1\<close> to \<open>regs4\<close>; the privilege check
  passes with the registers of the two steps that reach it): VMRESUME reports VMfailValid
  in EFLAGS; VMLAUNCH returns OK with the registers exactly as it found them (it writes no
  status), and sets \<open>nv_vmentry_pending\<close> and the launch state to 1; after the pending
  entry has been consumed a second VMLAUNCH reports VMfailValid in EFLAGS; VMRESUME then
  returns OK, again with the registers exactly as it found them, and sets
  \<open>nv_vmentry_pending\<close>.
\<close>

theorem launch_resume_sequence:
  fixes regs1 regs2 regs3 regs4 :: cpu_user_regs and v :: vcpu
  assumes mapped: "frame_of v (nv_vvmcx v) = Inr gfn" "guest_phys v gfn = Some pg"
    and cleared: "get_vvmcs v (nv_vvmcx v) NVMX_LAUNCH_STATE = Inr 0"
    and loaded: "nv_vvmcxaddr v \<noteq> VMCX_EADDR"
    and gate2: "fst (vmx_inst_check_privilege regs2 v False) = X86EMUL_OKAY"
    and gate4: "fst (vmx_inst_check_privilege regs4 v False) = X86EMUL_OKAY"
    and bitmaps: "(iobitmap v 0 \<noteq> NULL \<and> iobitmap v 1 \<noteq> NULL) \<or>
       (\<exists>c. n2_exec_control v = Inr c \<and> c AND CPU_BASED_ACTIVATE_IO_BITMAP = 0)"
  defines "v2 \<equiv> v\<lparr>guest_phys := (guest_phys v)(gfn := Some (pg(0x1f0 := 1))),
                    nv_vmentry_pending := True\<rparr>"
  shows "nvmx_handle_vmresume regs1 v =
       Inr (X86EMUL_EXCEPTION, vmreturn regs1 VMFAIL_VALID, v) \<and>
     nvmx_handle_vmlaunch regs2 v = Inr (X86EMUL_OKAY, regs2, v2) \<and>
     nv_vmentry_pending v2 \<and>
     get_vvmcs v2 (nv_vvmcx v2) NVMX_LAUNCH_STATE = Inr 1 \<and>
     nvmx_handle_vmlaunch regs3 (v2\<lparr>nv_vmentry_pending := False\<rparr>) =
       Inr (X86EMUL_EXCEPTION, vmreturn regs3 VMFAIL_VALID,
            v2\<lparr>nv_vmentry_pending := False\<rparr>) \<and>
     nvmx_handle_vmresume regs4 (v2\<lparr>nv_vmentry_pending := False\<rparr>) =
       Inr (X86EMUL_OKAY, regs4, v2)"
proof -
  have d: "deref v (nv_vvmcx v) = Inr pg"
    using mapped by (simp add: deref_def)
  have g0: "vmx_inst_check_privilege regs2 v False = (X86EMUL_OKAY, v)"
    using gate2 by (rule gate_okay_eq)
  have s1: "nvmx_handle_vmresume regs1 v =
      Inr (X86EMUL_EXCEPTION, vmreturn regs1 VMFAIL_VALID, v)"
    using cleared by (simp add: nvmx_handle_vmresume_def)
  have n2: "n2_exec_control v = Inr (ucast (pg 0x101 AND 0xffffffff))"
    using d by (simp add: n2_exec_control_def get_vvmcs_def get_exec_control)
  have r: "nvmx_vmresume v regs2 =
      Inr (X86EMUL_OKAY, regs2, v\<lparr>nv_vmentry_pending := True\<rparr>)"
    using bitmaps loaded by (auto simp add: nvmx_vmresume_def g0 n2)
  have set1: "set_vvmcs (v\<lparr>nv_vmentry_pending := True\<rparr>) (nv_vvmcx v) NVMX_LAUNCH_STATE 1 =
      Inr v2"
    using mapped
    by (simp add: set_vvmcs_def frame_of_pending v2_def set_launch_state)
  have s2: "nvmx_handle_vmlaunch regs2 v = Inr (X86EMUL_OKAY, regs2, v2)"
    using cleared by (simp add: nvmx_handle_vmlaunch_def r set1)
  have f2: "frame_of (v2\<lparr>nv_vmentry_pending := b\<rparr>) (nv_vvmcx v) = Inr gfn" for b
    using mapped by (simp add: frame_of_def v2_def split: ptr.splits option.splits)
  have get2: "get_vvmcs (v2\<lparr>nv_vmentry_pending := b\<rparr>) (nv_vvmcx v) e =
      Inr (get_vvmcs_page (pg(0x1f0 := 1)) (ucast e))" for b e
    using f2 [of b] by (simp add: get_vvmcs_def deref_def v2_def)
  have nv2: "nv_vvmcx (v2\<lparr>nv_vmentry_pending := b\<rparr>) = nv_vvmcx v" for b
    by (simp add: v2_def)
  have v2T: "v2\<lparr>nv_vmentry_pending := True\<rparr> = v2"
    by (simp add: v2_def)
  have nvv2: "nv_vvmcx v2 = nv_vvmcx v"
    by (simp add: v2_def)
  have s3: "get_vvmcs v2 (nv_vvmcx v2) NVMX_LAUNCH_STATE = Inr 1"
    using get2 [of True NVMX_LAUNCH_STATE] unfolding v2T nvv2
    by (simp add: get_launch_state)
  have s4: "nvmx_handle_vmlaunch regs3 (v2\<lparr>nv_vmentry_pending := False\<rparr>) =
       Inr (X86EMUL_EXCEPTION, vmreturn regs3 VMFAIL_VALID,
            v2\<lparr>nv_vmentry_pending := False\<rparr>)"
    by (simp add: nvmx_handle_vmlaunch_def nv2 get2 get_launch_state)
  have g4: "vmx_inst_check_privilege regs4 v False = (X86EMUL_OKAY, v)"
    using gate4 by (rule gate_okay_eq)
  have g2: "vmx_inst_check_privilege regs4 (v2\<lparr>nv_vmentry_pending := False\<rparr>) False =
      (X86EMUL_OKAY, v2\<lparr>nv_vmentry_pending := False\<rparr>)"
    using gate_okay_pending_phys [where regs = regs4 and v = v and c = False and p = False
        and g = "(guest_phys v)(gfn := Some (pg(0x1f0 := 1)))"] g4
    by (simp add: v2_def)
  have n22: "n2_exec_control (v2\<lparr>nv_vmentry_pending := False\<rparr>) = n2_exec_control v"
    by (simp add: n2_exec_control_def nv2 get2 n2 [unfolded n2_exec_control_def]
        get_exec_control)
  have r2: "nvmx_vmresume (v2\<lparr>nv_vmentry_pending := False\<rparr>) regs4 =
      Inr (X86EMUL_OKAY, regs4, v2)"
    using bitmaps loaded by (auto simp add: nvmx_vmresume_def g2 n22 n2) (simp_all add: v2_def)
  have s5: "nvmx_handle_vmresume regs4 (v2\<lparr>nv_vmentry_pending := False\<rparr>) =
       Inr (X86EMUL_OKAY, regs4, v2)"
    by (simp add: nvmx_handle_vmresume_def nv2 get2 get_launch_state r2)
  show ?thesis
    using s1 s2 s3 s4 s5 by (simp add: v2_def)
qed

section \<open>Execution controls: proofs\<close>

lemma bit0_u8: "((x :: u8) AND 1 \<noteq> 0) = bit x 0"
  using and_exp_eq_0_iff_not_bit [of x 0] by simp

lemma bit5_u8: "((x :: u8) AND 32 \<noteq> 0) = bit x 5"
  using and_exp_eq_0_iff_not_bit [of x 5] by simp

lemma shadow_io_bitmap_ports:
  assumes "deref v (iobitmap v 0) = Inr bm"
  shows "shadow_io_bitmap v =
     Inr (nestedhvm_vcpu_iomap_get v (bit (page_byte bm 0x10) 0) (bit (page_byte bm 0x1d) 5))"
  using assms by (simp add: shadow_io_bitmap_def bit0_u8 bit5_u8)

lemma uncond_forced:
  fixes b :: u32
  shows "((b OR CPU_BASED_UNCOND_IO_EXITING) AND NOT CPU_BASED_ACTIVATE_IO_BITMAP)
           AND CPU_BASED_UNCOND_IO_EXITING = CPU_BASED_UNCOND_IO_EXITING"
    and "((b OR CPU_BASED_UNCOND_IO_EXITING) AND NOT CPU_BASED_ACTIVATE_IO_BITMAP)
           AND CPU_BASED_ACTIVATE_IO_BITMAP = 0"
proof -
  have c: "CPU_BASED_UNCOND_IO_EXITING = 2 ^ 24" "CPU_BASED_ACTIVATE_IO_BITMAP = 2 ^ 25"
    by (simp_all add: CPU_BASED_UNCOND_IO_EXITING_def CPU_BASED_ACTIVATE_IO_BITMAP_def)
  show "((b OR CPU_BASED_UNCOND_IO_EXITING) AND NOT CPU_BASED_ACTIVATE_IO_BITMAP)
           AND CPU_BASED_UNCOND_IO_EXITING = CPU_BASED_UNCOND_IO_EXITING"
    unfolding c by (rule bit_word_eqI) (auto simp add: bit_simps simp del: power_numeral)
  show "((b OR CPU_BASED_UNCOND_IO_EXITING) AND NOT CPU_BASED_ACTIVATE_IO_BITMAP)
           AND CPU_BASED_ACTIVATE_IO_BITMAP = 0"
    by (rule bit_word_eqI) (auto simp add: bit_simps)
qed

text \<open>
  C9. With L1's control word \<open>l1\<close> read from the VVMCS, \<open>nvmx_update_exec_control\<close>
  writes to the hardware VMCS the word (\<open>l1\<close> without TPR_SHADOW, ACTIVATE_MSR_BITMAP,
  ACTIVATE_SECONDARY_CONTROLS, ACTIVATE_IO_BITMAP, UNCOND_IO_EXITING) OR \<open>host_cntrl\<close>.
  If L1's two I/O bits are exactly UNCOND_IO_EXITING the word written has UNCOND_IO_EXITING
  set and ACTIVATE_IO_BITMAP clear and the bitmap fields are left alone; if they are 0
  IO_BITMAP_A and B are set to the host's default bitmap and the page after it; otherwise,
  with L1's bitmap A mapped, to the shadow bitmap chosen by port 0x80 (bit 0 of byte 0x10)
  and port 0xED (bit 5 of byte 0x1d) of L1's bitmap, and the page after it.
\<close>

theorem update_exec_control:
  fixes v :: vcpu and host_cntrl l1 :: u32
  defines "pio \<equiv> l1 AND (CPU_BASED_ACTIVATE_IO_BITMAP OR CPU_BASED_UNCOND_IO_EXITING)"
  defines "merged \<equiv>
     (l1 AND NOT (CPU_BASED_TPR_SHADOW OR CPU_BASED_ACTIVATE_MSR_BITMAP OR
                  CPU_BASED_ACTIVATE_SECONDARY_CONTROLS OR
                  CPU_BASED_ACTIVATE_IO_BITMAP OR CPU_BASED_UNCOND_IO_EXITING))
     OR host_cntrl"
  defines "forced \<equiv>
     (merged OR CPU_BASED_UNCOND_IO_EXITING) AND NOT CPU_BASED_ACTIVATE_IO_BITMAP"
  assumes l1: "n2_exec_control v = Inr l1"
  shows "(pio = CPU_BASED_UNCOND_IO_EXITING \<longrightarrow>
            nvmx_update_exec_control v host_cntrl =
              Inr (v\<lparr>hw_vmcs := (hw_vmcs v)(CPU_BASED_VM_EXEC_CONTROL := ucast forced)\<rparr>) \<and>
            forced AND CPU_BASED_UNCOND_IO_EXITING = CPU_BASED_UNCOND_IO_EXITING \<and>
            forced AND CPU_BASED_ACTIVATE_IO_BITMAP = 0) \<and>
         (pio = 0 \<longrightarrow>
            nvmx_update_exec_control v host_cntrl =
              Inr (v\<lparr>hw_vmcs := (hw_vmcs v)
                     (IO_BITMAP_A := hvm_io_bitmap v,
                      IO_BITMAP_B := hvm_io_bitmap v + PAGE_SIZE,
                      CPU_BASED_VM_EXEC_CONTROL := ucast merged)\<rparr>)) \<and>
         (pio \<noteq> CPU_BASED_UNCOND_IO_EXITING \<and> pio \<noteq> 0 \<longrightarrow>
            (\<forall>bm. deref v (iobitmap v 0) = Inr bm \<longrightarrow>
               nvmx_update_exec_control v host_cntrl =
                 Inr (v\<lparr>hw_vmcs := (hw_vmcs v)
                        (IO_BITMAP_A :=
                           nestedhvm_vcpu_iomap_get v (bit (page_byte bm 0x10) 0)
                             (bit (page_byte bm 0x1d) 5),
                         IO_BITMAP_B :=
                           nestedhvm_vcpu_iomap_get v (bit (page_byte bm 0x10) 0)
                             (bit (page_byte bm 0x1d) 5) + PAGE_SIZE,
                         CPU_BASED_VM_EXEC_CONTROL := ucast merged)\<rparr>)))"
proof (intro conjI impI allI)
  assume "pio = CPU_BASED_UNCOND_IO_EXITING"
  then show "nvmx_update_exec_control v host_cntrl =
      Inr (v\<lparr>hw_vmcs := (hw_vmcs v)(CPU_BASED_VM_EXEC_CONTROL := ucast forced)\<rparr>)"
    using l1
    by (simp add: nvmx_update_exec_control_def Let_def pio_def merged_def forced_def
        vmwrite_def and.commute)
next
  show "forced AND CPU_BASED_UNCOND_IO_EXITING = CPU_BASED_UNCOND_IO_EXITING"
    unfolding forced_def by (rule uncond_forced)
next
  show "forced AND CPU_BASED_ACTIVATE_IO_BITMAP = 0"
    unfolding forced_def by (rule uncond_forced)
next
  assume "pio = 0"
  then have "pio \<noteq> CPU_BASED_UNCOND_IO_EXITING"
    by (simp add: CPU_BASED_UNCOND_IO_EXITING_def)
  with \<open>pio = 0\<close> show "nvmx_update_exec_control v host_cntrl =
      Inr (v\<lparr>hw_vmcs := (hw_vmcs v)
             (IO_BITMAP_A := hvm_io_bitmap v,
              IO_BITMAP_B := hvm_io_bitmap v + PAGE_SIZE,
              CPU_BASED_VM_EXEC_CONTROL := ucast merged)\<rparr>)"
    using l1
    by (simp add: nvmx_update_exec_control_def Let_def pio_def merged_def
        vmwrite_def and.commute)
next
  fix bm
  assume "pio \<noteq> CPU_BASED_UNCOND_IO_EXITING \<and> pio \<noteq> 0"
    and "deref v (iobitmap v 0) = Inr bm"
  then show "nvmx_update_exec_control v host_cntrl =
      Inr (v\<lparr>hw_vmcs := (hw_vmcs v)
             (IO_BITMAP_A :=
                nestedhvm_vcpu_iomap_get v (bit (page_byte bm 0x10) 0)
                  (bit (page_byte bm 0x1d) 5),
              IO_BITMAP_B :=
                nestedhvm_vcpu_iomap_get v (bit (page_byte bm 0x10) 0)
                  (bit (page_byte bm 0x1d) 5) + PAGE_SIZE,
              CPU_BASED_VM_EXEC_CONTROL := ucast merged)\<rparr>)"
    using l1
    by (simp add: nvmx_update_exec_control_def Let_def pio_def merged_def
        vmwrite_def and.commute shadow_io_bitmap_ports)
qed

section \<open>The handlers on the concrete guest\<close>

lemmas eval_defs = decode_vmx_inst_def vmx_inst_check_privilege_def hvm_get_segment_register_def
  vmread_def copy_into_def hvm_inject_exception_def Let_def

lemma decode_on:
  "decode_vmx_inst regs0 st_init (Some 0) True =
     DECODE_OKAY (VMX_INST_MEMREG_TYPE_MEMORY 0x101060 8 VMX_REG_RCX) (Some 0x7000) st_init"
  by (simp add: eval_defs ex_defs const_defs)

lemma vmxon_example: "nvmx_handle_vmxon regs0 st_init = Inr (X86EMUL_OKAY, regs0, st_on)"
  by (simp add: nvmx_handle_vmxon_def decode_on)
     (simp add: ex_defs const_defs vmreturn_def)

lemma decode_none_on:
  "decode_vmx_inst regs0 st_on None False =
     DECODE_OKAY (VMX_INST_MEMREG_TYPE_MEMORY 0x101060 8 VMX_REG_RCX) None st_on"
  by (simp add: eval_defs ex_defs const_defs)

lemma decode_some_on:
  "decode_vmx_inst regs0 st_on (Some 0) False =
     DECODE_OKAY (VMX_INST_MEMREG_TYPE_MEMORY 0x101060 8 VMX_REG_RCX) (Some 0x7000) st_on"
  by (simp add: eval_defs ex_defs const_defs)

lemma no_vvmcs_on: "nv_vvmcx st_on = NULL" "nv_vvmcxaddr st_on = VMCX_EADDR"
  by (simp_all add: ex_defs)

text \<open>
  C1. After initialisation and a successful VMXON no VVMCS is loaded: \<open>nv_vvmcx\<close> is
  NULL and \<open>nv_vvmcxaddr\<close> is INVALID. VMREAD, VMWRITE, VMRESUME and VMLAUNCH then call
  \<open>__get_vvmcs\<close> or \<open>__set_vvmcs\<close> on the NULL pointer, which is a fault of the host
  and not a fault injected into the guest or a VM-instruction status.
\<close>

theorem handlers_fault_without_vvmcs:
  "nvmx_handle_vmxon regs0 st_init = Inr (X86EMUL_OKAY, regs0, st_on) \<and>
   nv_vvmcx st_on = NULL \<and> nv_vvmcxaddr st_on = VMCX_EADDR \<and>
   nvmx_handle_vmread regs0 st_on = Inl NULL_DEREF \<and>
   nvmx_handle_vmwrite 0 regs0 st_on = Inl NULL_DEREF \<and>
   nvmx_handle_vmresume regs0 st_on = Inl NULL_DEREF \<and>
   nvmx_handle_vmlaunch regs0 st_on = Inl NULL_DEREF"
  by (simp add: vmxon_example no_vvmcs_on nvmx_handle_vmread_def nvmx_handle_vmwrite_def
      nvmx_handle_vmresume_def nvmx_handle_vmlaunch_def decode_none_on decode_some_on
      get_vvmcs_def set_vvmcs_def deref_def frame_of_def)

lemma decode_ld:
  "decode_vmx_inst regs_ld st_on (Some 0) False =
     DECODE_OKAY (VMX_INST_MEMREG_TYPE_MEMORY 0x102060 8 VMX_REG_RCX) (Some 0x12345000) st_on"
  by (simp add: eval_defs ex_defs const_defs)

lemma purge_on: "nvmx_purge_vvmcs st_on = st_on"
  by (simp add: nvmx_purge_vvmcs_def clear_current_vvmcs_def purge_iobitmap_def ex_defs
      const_defs)

lemmas map_defs = hvm_map_guest_frame_def map_io_bitmap_all_def map_io_bitmap_def
  get_vvmcs_def deref_def frame_of_def hvm_unmap_guest_frame_def
  get_io_bitmap_a get_io_bitmap_b

lemma io_bitmap_distinct: "IO_BITMAP_B \<noteq> IO_BITMAP_A"
  by (simp add: IO_BITMAP_A_def IO_BITMAP_B_def)

lemma vmptrld_example:
  "nvmx_handle_vmptrld regs_ld st_on = Inr (X86EMUL_OKAY, regs_ld, st_loaded)"
  apply (simp add: nvmx_handle_vmptrld_def decode_ld)
  apply (simp add: purge_on)
  apply (simp add: ex_defs const_defs map_defs io_bitmap_distinct vmreturn_def fun_eq_iff
      Let_def)
  done

text \<open>The purge never changes \<open>nv_vvmcx\<close>, and always sets the address to INVALID.\<close>

lemma purge_keeps_pointer:
  "nv_vvmcx (nvmx_purge_vvmcs v) = nv_vvmcx v \<and>
   nv_vvmcxaddr (nvmx_purge_vvmcs v) = VMCX_EADDR"
  by (simp add: nvmx_purge_vvmcs_def clear_current_vvmcs_def purge_iobitmap_def
      hvm_unmap_guest_frame_def Let_def split: ptr.split)

lemma gate_loaded: "vmx_inst_check_privilege regs_ld st_loaded False = (X86EMUL_OKAY, st_loaded)"
  by (simp add: eval_defs ex_defs const_defs)

text \<open>
  C2. VMXON, VMPTRLD of 0x12345000 and VMXOFF, from initialisation: the purge run by
  VMXOFF releases the mapping and sets \<open>nv_vvmcxaddr\<close> to INVALID, but \<open>nv_vvmcx\<close>
  still holds the pointer to the released mapping. The state is reachable and has the
  mapping pointer present with the address INVALID.
\<close>

theorem purge_leaves_stale_pointer:
  "nvmx_handle_vmxon regs0 st_init = Inr (X86EMUL_OKAY, regs0, st_on) \<and>
   nvmx_handle_vmptrld regs_ld st_on = Inr (X86EMUL_OKAY, regs_ld, st_loaded) \<and>
   nvmx_handle_vmxoff regs_ld st_loaded =
     Inr (X86EMUL_OKAY, regs_ld, (nvmx_purge_vvmcs st_loaded)\<lparr>vmxon_region_pa := 0\<rparr>) \<and>
   nv_vvmcx ((nvmx_purge_vvmcs st_loaded)\<lparr>vmxon_region_pa := 0\<rparr>) = Ptr 0 \<and>
   nv_vvmcxaddr ((nvmx_purge_vvmcs st_loaded)\<lparr>vmxon_region_pa := 0\<rparr>) = VMCX_EADDR \<and>
   host_maps ((nvmx_purge_vvmcs st_loaded)\<lparr>vmxon_region_pa := 0\<rparr>) 0 = None"
proof -
  have "vmreturn regs_ld VMSUCCEED = regs_ld"
    by (simp add: vmreturn_def ex_defs const_defs)
  moreover have "nv_vvmcx (nvmx_purge_vvmcs st_loaded) = Ptr 0"
    using purge_keeps_pointer [of st_loaded] by (simp add: ex_defs)
  moreover have "host_maps (nvmx_purge_vvmcs st_loaded) 0 = None"
    by (simp add: nvmx_purge_vvmcs_def clear_current_vvmcs_def purge_iobitmap_def
      hvm_unmap_guest_frame_def ex_defs const_defs)
  ultimately show ?thesis
    using purge_keeps_pointer [of st_loaded]
    by (simp add: vmxon_example vmptrld_example nvmx_handle_vmxoff_def gate_loaded)
qed


lemma regs_zf: "vmreturn regs_ld VMFAIL_VALID = regs_ld\<lparr>eflags := 0x42\<rparr>"
  by (simp add: vmreturn_def ex_defs const_defs)

lemma launch_state_loaded:
  "get_vvmcs st_loaded (Ptr 0) NVMX_LAUNCH_STATE = Inr 0"
  by (simp add: get_vvmcs_def deref_def frame_of_def get_launch_state ex_defs)

lemma gate_loaded_zf:
  "vmx_inst_check_privilege (regs_ld\<lparr>eflags := 0x42\<rparr>) st_loaded False =
     (X86EMUL_OKAY, st_loaded)"
  by (simp add: eval_defs ex_defs const_defs)

text \<open>
  C3 as stated fails at its second step. After VMPTRLD, VMRESUME reports VMfailValid and
  sets ZF; the VMLAUNCH that follows returns OK with \<open>nv_vmentry_pending\<close> and the launch
  state set, but the registers it returns still have ZF set: they are those of
  VMfailValid, and differ from what a VMsucceed status would leave.
\<close>

theorem vmlaunch_writes_no_status:
  "nvmx_handle_vmptrld regs_ld st_on = Inr (X86EMUL_OKAY, regs_ld, st_loaded) \<and>
   nvmx_handle_vmresume regs_ld st_loaded =
     Inr (X86EMUL_EXCEPTION, vmreturn regs_ld VMFAIL_VALID, st_loaded) \<and>
   nvmx_handle_vmlaunch (vmreturn regs_ld VMFAIL_VALID) st_loaded =
     Inr (X86EMUL_OKAY, vmreturn regs_ld VMFAIL_VALID, st_launched) \<and>
   eflags (vmreturn regs_ld VMFAIL_VALID) AND X86_EFLAGS_ZF = X86_EFLAGS_ZF \<and>
   vmreturn regs_ld VMFAIL_VALID \<noteq> vmreturn (vmreturn regs_ld VMFAIL_VALID) VMSUCCEED"
proof -
  have nv: "nv_vvmcx st_loaded = Ptr 0" "nv_vvmcxaddr st_loaded \<noteq> VMCX_EADDR"
    "iobitmap st_loaded 0 \<noteq> NULL" "iobitmap st_loaded (Suc 0) \<noteq> NULL"
    by (simp_all add: ex_defs st_launched_def const_defs)
  have a: "nvmx_handle_vmresume regs_ld st_loaded =
     Inr (X86EMUL_EXCEPTION, vmreturn regs_ld VMFAIL_VALID, st_loaded)"
    by (simp add: nvmx_handle_vmresume_def nv launch_state_loaded)
  have r: "nvmx_vmresume st_loaded (regs_ld\<lparr>eflags := 0x42\<rparr>) =
     Inr (X86EMUL_OKAY, regs_ld\<lparr>eflags := 0x42\<rparr>, st_loaded\<lparr>nv_vmentry_pending := True\<rparr>)"
    by (simp add: nvmx_vmresume_def gate_loaded_zf nv)
  have s: "set_vvmcs (st_loaded\<lparr>nv_vmentry_pending := True\<rparr>) (Ptr 0) NVMX_LAUNCH_STATE 1 =
     Inr st_launched"
    by (simp add: set_vvmcs_def frame_of_def set_launch_state ex_defs st_launched_def fun_eq_iff)
  have b: "nvmx_handle_vmlaunch (vmreturn regs_ld VMFAIL_VALID) st_loaded =
     Inr (X86EMUL_OKAY, vmreturn regs_ld VMFAIL_VALID, st_launched)"
    by (simp add: nvmx_handle_vmlaunch_def nv launch_state_loaded regs_zf r s)
  have c: "eflags (vmreturn regs_ld VMFAIL_VALID) AND X86_EFLAGS_ZF = X86_EFLAGS_ZF"
    by (simp add: regs_zf const_defs)
  have "eflags (vmreturn (vmreturn regs_ld VMFAIL_VALID) VMSUCCEED) = 0x2"
    by (simp only: regs_zf) (simp add: vmreturn_def const_defs)
  moreover have "eflags (vmreturn regs_ld VMFAIL_VALID) = 0x42"
    by (simp add: regs_zf)
  ultimately have d: "vmreturn regs_ld VMFAIL_VALID \<noteq>
      vmreturn (vmreturn regs_ld VMFAIL_VALID) VMSUCCEED"
    by auto
  show ?thesis
    using a b c d by (simp add: vmptrld_example)
qed

text \<open>
  The sequence of C3 on the concrete guest, from the state after VMPTRLD. VMRESUME sets
  ZF, which was clear; VMLAUNCH is given those registers and returns them with ZF still
  set; after the nested entry has been consumed, the second VMLAUNCH is given registers
  with ZF clear and sets it; VMRESUME is given those and returns them unchanged.
\<close>

theorem launch_resume_sequence_witness:
  "nvmx_handle_vmresume regs_ld st_loaded =
     Inr (X86EMUL_EXCEPTION, vmreturn regs_ld VMFAIL_VALID, st_loaded) \<and>
   nvmx_handle_vmlaunch (vmreturn regs_ld VMFAIL_VALID) st_loaded =
     Inr (X86EMUL_OKAY, vmreturn regs_ld VMFAIL_VALID, st_launched) \<and>
   nv_vmentry_pending st_launched \<and>
   get_vvmcs st_launched (nv_vvmcx st_launched) NVMX_LAUNCH_STATE = Inr 1 \<and>
   nvmx_handle_vmlaunch regs_ld (st_launched\<lparr>nv_vmentry_pending := False\<rparr>) =
     Inr (X86EMUL_EXCEPTION, vmreturn regs_ld VMFAIL_VALID,
          st_launched\<lparr>nv_vmentry_pending := False\<rparr>) \<and>
   nvmx_handle_vmresume (vmreturn regs_ld VMFAIL_VALID)
       (st_launched\<lparr>nv_vmentry_pending := False\<rparr>) =
     Inr (X86EMUL_OKAY, vmreturn regs_ld VMFAIL_VALID, st_launched) \<and>
   eflags regs_ld AND X86_EFLAGS_ZF = 0 \<and>
   eflags (vmreturn regs_ld VMFAIL_VALID) AND X86_EFLAGS_ZF = X86_EFLAGS_ZF"
proof -
  have nv: "nv_vvmcx st_loaded = Ptr 0" "nv_vvmcxaddr st_loaded \<noteq> VMCX_EADDR"
    "iobitmap st_loaded 0 \<noteq> NULL" "iobitmap st_loaded (Suc 0) \<noteq> NULL"
    by (simp_all add: ex_defs st_launched_def const_defs)
  have f: "frame_of st_loaded (nv_vvmcx st_loaded) = Inr 0x12345"
    "guest_phys st_loaded 0x12345 = Some (\<lambda>_. 0)"
    by (simp_all add: frame_of_def ex_defs st_launched_def)
  have g: "fst (vmx_inst_check_privilege (vmreturn regs_ld VMFAIL_VALID) st_loaded False) =
      X86EMUL_OKAY"
    by (simp add: gate_vmreturn gate_loaded)
  have l: "st_loaded\<lparr>guest_phys := (guest_phys st_loaded)(0x12345 := Some ((\<lambda>_. 0)(0x1f0 := 1))),
      nv_vmentry_pending := True\<rparr> = st_launched"
    by (simp add: ex_defs st_launched_def)
  have z: "eflags regs_ld AND X86_EFLAGS_ZF = 0"
    by (simp add: ex_defs const_defs)
  have z': "eflags (vmreturn regs_ld VMFAIL_VALID) AND X86_EFLAGS_ZF = X86_EFLAGS_ZF"
    by (simp add: regs_zf const_defs)
  show ?thesis
    using launch_resume_sequence [where v = st_loaded and gfn = "0x12345" and pg = "\<lambda>_. 0"
        and ?regs1.0 = regs_ld and ?regs2.0 = "vmreturn regs_ld VMFAIL_VALID"
        and ?regs3.0 = regs_ld and ?regs4.0 = "vmreturn regs_ld VMFAIL_VALID", OF f]
      launch_state_loaded g nv z z'
    by (simp add: l)
qed


lemma decode_io:
  "decode_vmx_inst regs_io st_on (Some 0) False =
     DECODE_OKAY (VMX_INST_MEMREG_TYPE_MEMORY 0x104060 8 VMX_REG_RCX) (Some 0x54321000) st_on"
  by (simp add: eval_defs ex_defs regs_io_def st_io_def const_defs)

lemma vmptrld_io_example:
  "nvmx_handle_vmptrld regs_io st_on = Inr (X86EMUL_OKAY, regs_io, st_io)"
  apply (simp add: nvmx_handle_vmptrld_def decode_io)
  apply (simp add: purge_on)
  apply (simp add: ex_defs regs_io_def st_io_def const_defs map_defs io_bitmap_distinct vmreturn_def fun_eq_iff
      Let_def)
  done

text \<open>
  C4. The VVMCS at 0x54321000 asks for I/O-bitmap exiting and its bitmap A is not mapped.
  VMLAUNCH takes the VMfailInvalid branch of \<open>nvmx_vmresume\<close> (CF set, no pending
  entry), which returns \<open>X86EMUL_OKAY\<close> like the success branch, and the launch state
  of the VVMCS goes from 0 to 1.
\<close>

theorem vmlaunch_fail_sets_launch_state:
  "nvmx_handle_vmptrld regs_io st_on = Inr (X86EMUL_OKAY, regs_io, st_io) \<and>
   iobitmap st_io 0 = NULL \<and>
   n2_exec_control st_io = Inr CPU_BASED_ACTIVATE_IO_BITMAP \<and>
   get_vvmcs st_io (nv_vvmcx st_io) NVMX_LAUNCH_STATE = Inr 0 \<and>
   nvmx_handle_vmlaunch regs_io st_io =
     Inr (X86EMUL_OKAY, vmreturn regs_io VMFAIL_INVALID,
          st_io\<lparr>guest_phys := phys0(0x54321 := Some (io_page(0x1f0 := 1)))\<rparr>) \<and>
   eflags (vmreturn regs_io VMFAIL_INVALID) AND X86_EFLAGS_CF = X86_EFLAGS_CF \<and>
   nv_vmentry_pending (st_io\<lparr>guest_phys := phys0(0x54321 := Some (io_page(0x1f0 := 1)))\<rparr>)
     = False \<and>
   get_vvmcs (st_io\<lparr>guest_phys := phys0(0x54321 := Some (io_page(0x1f0 := 1)))\<rparr>)
       (nv_vvmcx st_io) NVMX_LAUNCH_STATE = Inr 1"
proof -
  have nv: "nv_vvmcx st_io = Ptr 0" "nv_vvmcxaddr st_io \<noteq> VMCX_EADDR"
    "iobitmap st_io 0 = NULL"
    by (simp_all add: ex_defs regs_io_def st_io_def const_defs)
  have fr: "frame_of st_io (Ptr 0) = Inr 0x54321" "guest_phys st_io 0x54321 = Some io_page"
    by (simp_all add: frame_of_def st_io_def st_on_def st_init_def nvmx_vcpu_initialise_def
        vcpu0_def phys0_def)
  have ctl: "n2_exec_control st_io = Inr CPU_BASED_ACTIVATE_IO_BITMAP"
    by (simp add: n2_exec_control_def get_vvmcs_def deref_def fr nv get_exec_control
        io_page_def CPU_BASED_ACTIVATE_IO_BITMAP_def)
  have ls: "get_vvmcs st_io (Ptr 0) NVMX_LAUNCH_STATE = Inr 0"
    by (simp add: get_vvmcs_def deref_def fr get_launch_state io_page_def)
  have g: "vmx_inst_check_privilege regs_io st_io False = (X86EMUL_OKAY, st_io)"
    by (simp add: eval_defs ex_defs regs_io_def st_io_def const_defs)
  have r: "nvmx_vmresume st_io regs_io = Inr (X86EMUL_OKAY, vmreturn regs_io VMFAIL_INVALID, st_io)"
    by (simp add: nvmx_vmresume_def g nv ctl CPU_BASED_ACTIVATE_IO_BITMAP_def)
  have s: "set_vvmcs st_io (Ptr 0) NVMX_LAUNCH_STATE 1 =
      Inr (st_io\<lparr>guest_phys := phys0(0x54321 := Some (io_page(0x1f0 := 1)))\<rparr>)"
    by (simp add: set_vvmcs_def fr set_launch_state)
       (simp add: st_io_def st_on_def st_init_def nvmx_vcpu_initialise_def vcpu0_def)
  have l: "nvmx_handle_vmlaunch regs_io st_io =
     Inr (X86EMUL_OKAY, vmreturn regs_io VMFAIL_INVALID,
          st_io\<lparr>guest_phys := phys0(0x54321 := Some (io_page(0x1f0 := 1)))\<rparr>)"
    by (simp add: nvmx_handle_vmlaunch_def nv ls r s)
  have cf: "eflags (vmreturn regs_io VMFAIL_INVALID) AND X86_EFLAGS_CF = X86_EFLAGS_CF"
    by (simp add: vmreturn_def ex_defs regs_io_def st_io_def const_defs)
  have p: "nv_vmentry_pending
      (st_io\<lparr>guest_phys := phys0(0x54321 := Some (io_page(0x1f0 := 1)))\<rparr>) = False"
    by (simp add: ex_defs regs_io_def st_io_def)
  have ls1: "get_vvmcs (st_io\<lparr>guest_phys := phys0(0x54321 := Some (io_page(0x1f0 := 1)))\<rparr>)
       (Ptr 0) NVMX_LAUNCH_STATE = Inr 1"
    by (simp add: get_vvmcs_def deref_def frame_of_def get_launch_state ex_defs regs_io_def st_io_def)
  show ?thesis
    using nv ctl ls l cf p ls1 by (simp add: vmptrld_io_example)
qed

lemma launch_state_user: "get_vvmcs st_user (Ptr 0) NVMX_LAUNCH_STATE = Inr 0"
  by (simp add: get_vvmcs_def deref_def frame_of_def get_launch_state ex_defs st_user_def)

lemma gate_user:
  "vmx_inst_check_privilege regs_ld st_user False =
     (X86EMUL_EXCEPTION, st_user\<lparr>injected := [(13, 0, 0)]\<rparr>)"
  by (simp add: eval_defs ex_defs st_user_def const_defs)

text \<open>
  C5. At CPL 3 the privilege check rejects with #GP(0) (lemma \<open>gate_user\<close>), and VMXOFF
  accordingly injects #GP(0) and returns EXCEPTION with the registers untouched. VMRESUME
  in the same state, on a VVMCS with launch state 0, does not get that far: it has read
  the launch state, written VMfailValid to EFLAGS (ZF goes from clear to set) and
  returned EXCEPTION with nothing injected. VMLAUNCH reads the launch state first as
  well: at CPL 3 with no VVMCS loaded (the state after VMXON) that read stops the host.
\<close>

theorem vmresume_reads_before_gate:
  "nvmx_handle_vmxoff regs_ld st_user =
     Inr (X86EMUL_EXCEPTION, regs_ld, st_user\<lparr>injected := [(13, 0, 0)]\<rparr>) \<and>
   nvmx_handle_vmresume regs_ld st_user =
     Inr (X86EMUL_EXCEPTION, vmreturn regs_ld VMFAIL_VALID, st_user) \<and>
   injected st_user = [] \<and>
   eflags (vmreturn regs_ld VMFAIL_VALID) AND X86_EFLAGS_ZF = X86_EFLAGS_ZF \<and>
   eflags regs_ld AND X86_EFLAGS_ZF = 0 \<and>
   nvmx_handle_vmlaunch regs_ld
       (st_on\<lparr>seg_regs := segs0(x86_seg_cs := (segs0 x86_seg_cs)\<lparr>sel := 0x13\<rparr>)\<rparr>) =
     Inl NULL_DEREF"
proof -
  have nv: "nv_vvmcx st_user = Ptr 0"
    by (simp add: ex_defs st_user_def)
  have a: "nvmx_handle_vmxoff regs_ld st_user =
     Inr (X86EMUL_EXCEPTION, regs_ld, st_user\<lparr>injected := [(13, 0, 0)]\<rparr>)"
    by (simp add: nvmx_handle_vmxoff_def gate_user)
  have b: "nvmx_handle_vmresume regs_ld st_user =
     Inr (X86EMUL_EXCEPTION, vmreturn regs_ld VMFAIL_VALID, st_user)"
    by (simp add: nvmx_handle_vmresume_def nv launch_state_user)
  have c: "injected st_user = []" "eflags regs_ld AND X86_EFLAGS_ZF = 0"
    by (simp_all add: ex_defs st_user_def const_defs)
  have c': "eflags (vmreturn regs_ld VMFAIL_VALID) AND X86_EFLAGS_ZF = X86_EFLAGS_ZF"
    by (simp add: regs_zf const_defs)
  have d: "nvmx_handle_vmlaunch regs_ld
       (st_on\<lparr>seg_regs := segs0(x86_seg_cs := (segs0 x86_seg_cs)\<lparr>sel := 0x13\<rparr>)\<rparr>) =
     Inl NULL_DEREF"
    by (simp add: nvmx_handle_vmlaunch_def get_vvmcs_def deref_def frame_of_def no_vvmcs_on)
  show ?thesis
    using a b c c' d by simp
qed

lemma decode_mis:
  "decode_vmx_inst regs_mis st_init (Some 0) True =
     DECODE_OKAY (VMX_INST_MEMREG_TYPE_MEMORY 0x103060 8 VMX_REG_RCX) (Some 0x7001) st_init"
  by (simp add: eval_defs ex_defs regs_mis_def const_defs)

text \<open>
  C8. VMXON with the operand 0x7001, whose low 12 bits are not zero: the handler
  records it as \<open>vmxon_region_pa\<close> and reports VMsucceed.
\<close>

theorem vmxon_accepts_misaligned:
  "nvmx_handle_vmxon regs_mis st_init =
     Inr (X86EMUL_OKAY, vmreturn regs_mis VMSUCCEED, st_on\<lparr>vmxon_region_pa := 0x7001\<rparr>) \<and>
   vmxon_region_pa (st_on\<lparr>vmxon_region_pa := 0x7001\<rparr>) AND 0xfff = 1 \<and>
   eflags (vmreturn regs_mis VMSUCCEED) AND (X86_EFLAGS_CF OR X86_EFLAGS_ZF) = 0"
  by (simp add: nvmx_handle_vmxon_def decode_mis)
     (simp add: ex_defs regs_mis_def const_defs vmreturn_def)


text \<open>
  The seven handlers other than VMRESUME and VMLAUNCH start with the privilege check,
  directly or through the decoder: when it rejects, they return EXCEPTION with the
  registers untouched and the vCPU as the check left it.
\<close>

lemma decode_gate_rejects:
  assumes "fst (vmx_inst_check_privilege regs v c) \<noteq> X86EMUL_OKAY"
  shows "decode_vmx_inst regs v p c =
     DECODE_EXCEPTION (snd (vmx_inst_check_privilege regs v c))"
  using assms
  by (cases "vmx_inst_check_privilege regs v c") (simp add: decode_vmx_inst_def)

lemma gate_rejects_exception:
  assumes "fst (vmx_inst_check_privilege regs v c) \<noteq> X86EMUL_OKAY"
  shows "fst (vmx_inst_check_privilege regs v c) = X86EMUL_EXCEPTION"
  using assms by (cases "fst (vmx_inst_check_privilege regs v c)") simp_all

lemma handlers_gate_first:
  assumes "fst (vmx_inst_check_privilege regs v False) \<noteq> X86EMUL_OKAY"
  defines "v1 \<equiv> snd (vmx_inst_check_privilege regs v False)"
  shows "nvmx_handle_vmxoff regs v = Inr (X86EMUL_EXCEPTION, regs, v1)"
    and "nvmx_handle_vmptrld regs v = Inr (X86EMUL_EXCEPTION, regs, v1)"
    and "nvmx_handle_vmptrst regs v = Inr (X86EMUL_EXCEPTION, regs, v1)"
    and "nvmx_handle_vmclear regs v = Inr (X86EMUL_EXCEPTION, regs, v1)"
    and "nvmx_handle_vmread regs v = Inr (X86EMUL_EXCEPTION, regs, v1)"
    and "nvmx_handle_vmwrite operand0 regs v = Inr (X86EMUL_EXCEPTION, regs, v1)"
  using assms(1) gate_rejects_exception [OF assms(1)]
  by (simp_all add: nvmx_handle_vmxoff_def nvmx_handle_vmptrld_def nvmx_handle_vmptrst_def
      nvmx_handle_vmclear_def nvmx_handle_vmread_def nvmx_handle_vmwrite_def
      decode_gate_rejects v1_def split_beta)

lemma vmxon_gate_first:
  assumes "fst (vmx_inst_check_privilege regs v True) \<noteq> X86EMUL_OKAY"
  shows "nvmx_handle_vmxon regs v =
     Inr (X86EMUL_EXCEPTION, regs, snd (vmx_inst_check_privilege regs v True))"
  using assms by (simp add: nvmx_handle_vmxon_def decode_gate_rejects)

subsection \<open>Execution controls on the concrete guest\<close>

lemma n2_st_ctl: "n2_exec_control (st_ctl c s) = Inr (ucast (c AND 0xffffffff))"
  by (simp add: n2_exec_control_def get_vvmcs_def deref_def frame_of_def get_exec_control
      ex_defs st_ctl_def)

lemma bitmap_st_ctl: "deref (st_ctl c s) (iobitmap (st_ctl c s) 0) = Inr ((\<lambda>_. 0)(2 := s))"
  by (simp add: deref_def frame_of_def ex_defs st_ctl_def)

lemmas ctl_defs = CPU_BASED_TPR_SHADOW_def CPU_BASED_UNCOND_IO_EXITING_def
  CPU_BASED_ACTIVATE_IO_BITMAP_def CPU_BASED_ACTIVATE_MSR_BITMAP_def
  CPU_BASED_ACTIVATE_SECONDARY_CONTROLS_def

text \<open>
  The three I/O policies of C9 on the concrete guest, with the host asking for
  ACTIVATE_IO_BITMAP: L1 with UNCOND_IO_EXITING alone, L1 with neither bit, and L1 with
  ACTIVATE_IO_BITMAP and a bitmap that intercepts port 0x80 but not port 0xED.
\<close>

theorem update_exec_control_witness:
  "nvmx_update_exec_control (st_ctl 0x01000000 0) 0x02000480 =
     Inr ((st_ctl 0x01000000 0)\<lparr>hw_vmcs := (hw_vmcs (st_ctl 0x01000000 0))
            (CPU_BASED_VM_EXEC_CONTROL := 0x01000480)\<rparr>) \<and>
   nvmx_update_exec_control (st_ctl 0 0) 0x02000480 =
     Inr ((st_ctl 0 0)\<lparr>hw_vmcs := (hw_vmcs (st_ctl 0 0))
            (IO_BITMAP_A := 0x800000, IO_BITMAP_B := 0x801000,
             CPU_BASED_VM_EXEC_CONTROL := 0x02000480)\<rparr>) \<and>
   nvmx_update_exec_control (st_ctl 0x02000000 1) 0x02000480 =
     Inr ((st_ctl 0x02000000 1)\<lparr>hw_vmcs := (hw_vmcs (st_ctl 0x02000000 1))
            (IO_BITMAP_A := 0x902000, IO_BITMAP_B := 0x903000,
             CPU_BASED_VM_EXEC_CONTROL := 0x02000480)\<rparr>)"
proof -
  have io: "nestedhvm_vcpu_iomap_get (st_ctl c s) p q =
      0x900000 + (if p then 0x2000 else 0) + (if q then 0x4000 else 0)"
      "hvm_io_bitmap (st_ctl c s) = 0x800000" for c s p q
    by (simp_all add: ex_defs st_ctl_def)
  have b: "bit (page_byte ((\<lambda>_. 0)(2 := 1)) 0x10) 0" "\<not> bit (page_byte ((\<lambda>_. 0)(2 := 1)) 0x1d) 5"
    by (simp_all add: page_byte_def)
  have a: "nvmx_update_exec_control (st_ctl 0x01000000 0) 0x02000480 =
     Inr ((st_ctl 0x01000000 0)\<lparr>hw_vmcs := (hw_vmcs (st_ctl 0x01000000 0))
            (CPU_BASED_VM_EXEC_CONTROL := 0x01000480)\<rparr>)"
    using update_exec_control [of "st_ctl 0x01000000 0" "0x01000000" "0x02000480"]
    by (simp add: n2_st_ctl ctl_defs)
  have c: "nvmx_update_exec_control (st_ctl 0 0) 0x02000480 =
     Inr ((st_ctl 0 0)\<lparr>hw_vmcs := (hw_vmcs (st_ctl 0 0))
            (IO_BITMAP_A := 0x800000, IO_BITMAP_B := 0x801000,
             CPU_BASED_VM_EXEC_CONTROL := 0x02000480)\<rparr>)"
    using update_exec_control [of "st_ctl 0 0" "0" "0x02000480"]
    by (simp add: n2_st_ctl ctl_defs io PAGE_SIZE_def)
  have d: "nvmx_update_exec_control (st_ctl 0x02000000 1) 0x02000480 =
     Inr ((st_ctl 0x02000000 1)\<lparr>hw_vmcs := (hw_vmcs (st_ctl 0x02000000 1))
            (IO_BITMAP_A := 0x902000, IO_BITMAP_B := 0x903000,
             CPU_BASED_VM_EXEC_CONTROL := 0x02000480)\<rparr>)"
    using update_exec_control [of "st_ctl 0x02000000 1" "0x02000000" "0x02000480"]
    by (simp add: n2_st_ctl ctl_defs io b bitmap_st_ctl PAGE_SIZE_def)
  show ?thesis
    using a c d by simp
qed

end
